theory Spec2Isabelle
  imports Main "HOL-Library.Word"
begin

section \<open>Go library functions called by main.go\<close>

subsection \<open>Package strings and path/filepath\<close>

text \<open>\<^verbatim>\<open>strings.HasPrefix(s, prefix)\<close>: \<^verbatim>\<open>len(s) >= len(prefix) && s[:len(prefix)] == prefix\<close>.\<close>

definition HasPrefix :: "string \<Rightarrow> string \<Rightarrow> bool" where
  "HasPrefix s prefix = (length prefix \<le> length s \<and> take (length prefix) s = prefix)"

definition TrimPrefix :: "string \<Rightarrow> string \<Rightarrow> string" where
  "TrimPrefix s prefix = (if HasPrefix s prefix then drop (length prefix) s else s)"

definition HasSuffix :: "string \<Rightarrow> string \<Rightarrow> bool" where
  "HasSuffix s suffix =
     (length suffix \<le> length s \<and> drop (length s - length suffix) s = suffix)"

definition TrimSuffix :: "string \<Rightarrow> string \<Rightarrow> string" where
  "TrimSuffix s suffix =
     (if HasSuffix s suffix then take (length s - length suffix) s else s)"

text \<open>
  \<^verbatim>\<open>filepath.Ext(path)\<close> scans the path from its last byte towards the front, stops at
  a path separator, and returns the suffix that starts at the first dot it meets; the
  result is empty when it meets no dot. The scan is written over the reversed path, with
  the bytes already passed kept in \<open>seen\<close>. Which bytes separate path elements depends
  on the operating system, so \<^verbatim>\<open>os.IsPathSeparator\<close> is a parameter.
\<close>

fun Ext_scan :: "(char \<Rightarrow> bool) \<Rightarrow> string \<Rightarrow> string \<Rightarrow> string" where
  "Ext_scan sep [] seen = []"
| "Ext_scan sep (c # cs) seen =
     (if sep c then []
      else if c = CHR ''.'' then c # seen
      else Ext_scan sep cs (c # seen))"

definition Ext :: "(char \<Rightarrow> bool) \<Rightarrow> string \<Rightarrow> string" where
  "Ext sep path = Ext_scan sep (rev path) []"

subsection \<open>Package strconv\<close>

definition digit :: "nat \<Rightarrow> char" where
  "digit d = ''0123456789'' ! (d mod 10)"

fun digits10 :: "nat \<Rightarrow> string" where
  "digits10 n = (if n < 10 then [digit n] else digits10 (n div 10) @ [digit (n mod 10)])"

definition pad0 :: "nat \<Rightarrow> string \<Rightarrow> string" where
  "pad0 w s = replicate (w - length s) CHR ''0'' @ s"

text \<open>\<^verbatim>\<open>strconv.FormatInt(i, 10)\<close> on an \<^verbatim>\<open>int64\<close>, read as two's complement.\<close>

definition FormatInt10 :: "64 word \<Rightarrow> string" where
  "FormatInt10 i =
     (if sint i < 0 then CHR ''-'' # digits10 (nat (- sint i)) else digits10 (nat (sint i)))"

text \<open>
  A \<^verbatim>\<open>float64\<close> is a not-a-number, an infinity with its sign, or a signed binary
  fraction \<open>m * 2 ^ e\<close> (the flag is the sign bit, so that negative zero is a value).
\<close>

datatype float64 = Float bool nat int | Infinity bool | NaN

definition round_half_even :: "nat \<Rightarrow> nat \<Rightarrow> nat" where
  "round_half_even num den =
     (let q = num div den; r = num mod den
      in if den < 2 * r \<or> (2 * r = den \<and> odd q) then q + 1 else q)"

text \<open>The magnitude \<open>m * 2 ^ e\<close> in units of \<open>10 ^ - prec\<close>, rounded to nearest, ties to even.\<close>

definition fixed_units :: "nat \<Rightarrow> int \<Rightarrow> nat \<Rightarrow> nat" where
  "fixed_units m e prec =
     (if 0 \<le> e then m * 2 ^ nat e * 10 ^ prec
      else round_half_even (m * 10 ^ prec) (2 ^ nat (- e)))"

text \<open>
  \<^verbatim>\<open>strconv.FormatFloat(x, 'f', prec, 64)\<close> for \<open>prec \<ge> 0\<close>: \<^verbatim>\<open>NaN\<close>, \<^verbatim>\<open>+Inf\<close> and
  \<^verbatim>\<open>-Inf\<close> for the special values; otherwise the sign, the integer digits and, when
  \<open>prec > 0\<close>, a point followed by \<open>prec\<close> fraction digits.
\<close>

definition FormatFloat_f :: "float64 \<Rightarrow> nat \<Rightarrow> string" where
  "FormatFloat_f x prec =
     (case x of
        NaN \<Rightarrow> ''NaN''
      | Infinity neg \<Rightarrow> (if neg then ''-Inf'' else ''+Inf'')
      | Float neg m e \<Rightarrow>
          (let n = fixed_units m e prec
           in (if neg then ''-'' else '''') @ digits10 (n div 10 ^ prec) @
              (if 0 < prec then CHR ''.'' # pad0 prec (digits10 (n mod 10 ^ prec)) else [])))"

subsection \<open>Package dbf: values, field headers, records, the opened table\<close>

text \<open>
  main.go uses the reader library, package dbf, through a few types and functions. A field
  value is a Go \<^verbatim>\<open>interface{}\<close>: \<open>None\<close> is the nil interface, \<open>Some v\<close> a value \<open>v\<close>
  of some dynamic type \<open>'v\<close>.
\<close>

text \<open>
  Modelled from the spec: the struct \<^verbatim>\<open>dbf.FieldHeader\<close>, the field descriptor of section
  3: a name, a type tag, a declared length, and a decimal scale that is a non-negative
  integer. main.go reads the tag through \<^verbatim>\<open>FieldType()\<close> (a string), the name through
  \<^verbatim>\<open>FieldName()\<close>, and the length and the scale as the fields \<^verbatim>\<open>Len\<close> and
  \<^verbatim>\<open>Decimals\<close>.
\<close>

record FieldHeader =
  FieldName :: string
  FieldType :: string
  Len :: nat
  Decimals :: nat

text \<open>
  Modelled from the spec: the record type of package dbf, an ordered sequence of field
  values plus a deletion flag; main.go reads them as \<^verbatim>\<open>record.FieldSlice()\<close> and
  \<^verbatim>\<open>record.Deleted\<close>.
\<close>

record 'v Record =
  Deleted :: bool
  FieldSlice :: "'v option list"

text \<open>
  Modelled from the spec: the opened table \<^verbatim>\<open>*dbf.DBF\<close>, with the queries of section 6
  that main.go makes: the total record count (compared with a \<^verbatim>\<open>uint32\<close> in main.go),
  the field count, the ordered field names, the ordered field headers, and the fetch of a
  record by zero-based index, which may fail independently of other indices.
\<close>

record ('e, 'v) DBF =
  NumRecords :: "32 word"
  NumFields :: int
  FieldNames :: "string list"
  Fields :: "FieldHeader list"
  RecordAt :: "32 word \<Rightarrow> 'e + 'v Record"

text \<open>
  Parameters: the conversions of package dbf (each takes an \<^verbatim>\<open>interface{}\<close>), the
  zero test and the calendar accessors of \<^verbatim>\<open>time.Time\<close>, the shortest round-trip float
  formatting \<^verbatim>\<open>strconv.FormatFloat(x, 'f', -1, 64)\<close>, and \<^verbatim>\<open>fmt.Sprintf("%v", v)\<close>.
\<close>

record ('v, 't) lib =
  ToTrimmedString :: "'v option \<Rightarrow> string"
  ToString :: "'v option \<Rightarrow> string"
  ToInt64 :: "'v option \<Rightarrow> 64 word"
  ToFloat64 :: "'v option \<Rightarrow> float64"
  ToBool :: "'v option \<Rightarrow> bool"
  ToTime :: "'v option \<Rightarrow> 't"
  IsZero :: "'t \<Rightarrow> bool"
  Year :: "'t \<Rightarrow> int"
  Month :: "'t \<Rightarrow> nat"
  Day :: "'t \<Rightarrow> nat"
  Hour :: "'t \<Rightarrow> nat"
  Minute :: "'t \<Rightarrow> nat"
  Second :: "'t \<Rightarrow> nat"
  FormatFloat_shortest :: "float64 \<Rightarrow> string"
  Sprintf_v :: "'v \<Rightarrow> string"

text \<open>
  \<^verbatim>\<open>t.Format("2006-01-02")\<close> and \<^verbatim>\<open>t.Format("2006-01-02 15:04:05")\<close>: the year zero-padded
  to four digits (after a minus sign when negative), every other field zero-padded to two.
\<close>

definition year4 :: "int \<Rightarrow> string" where
  "year4 y = (if y < 0 then ''-'' else '''') @ pad0 4 (digits10 (nat \<bar>y\<bar>))"

definition two :: "nat \<Rightarrow> string" where
  "two n = pad0 2 (digits10 n)"

definition Format_date :: "('v, 't) lib \<Rightarrow> 't \<Rightarrow> string" where
  "Format_date L t = year4 (Year L t) @ ''-'' @ two (Month L t) @ ''-'' @ two (Day L t)"

definition Format_datetime :: "('v, 't) lib \<Rightarrow> 't \<Rightarrow> string" where
  "Format_datetime L t =
     Format_date L t @ '' '' @ two (Hour L t) @ '':'' @ two (Minute L t) @ '':'' @ two (Second L t)"

section \<open>main.go: formatValueForCSV\<close>

definition formatValueForCSV :: "('v, 't) lib \<Rightarrow> 'v option \<Rightarrow> FieldHeader \<Rightarrow> string" where
  "formatValueForCSV L v field =
     (case v of
        None \<Rightarrow> []
      | Some x \<Rightarrow>
          (if FieldType field = ''C'' then ToTrimmedString L v
           else if FieldType field = ''N'' then
             (if Decimals field = 0 then FormatInt10 (ToInt64 L v)
              else FormatFloat_f (ToFloat64 L v) (Decimals field))
           else if FieldType field = ''F'' then FormatFloat_shortest L (ToFloat64 L v)
           else if FieldType field = ''L'' then (if ToBool L v then ''true'' else ''false'')
           else if FieldType field = ''D'' then
             (let t = ToTime L v in if IsZero L t then [] else Format_date L t)
           else if FieldType field = ''T'' then
             (let t = ToTime L v in if IsZero L t then [] else Format_datetime L t)
           else if FieldType field = ''M'' then ToString L v
           else if FieldType field = ''I'' then FormatInt10 (ToInt64 L v)
           else if FieldType field = ''B'' then FormatFloat_shortest L (ToFloat64 L v)
           else if FieldType field = ''Y'' then FormatFloat_f (ToFloat64 L v) 4
           else Sprintf_v L x))"

text \<open>
  Row construction, lines 244 to 249: \<^verbatim>\<open>for j, value := range fieldSlice\<close> fills
  position \<open>j\<close> of the row from \<^verbatim>\<open>d.Fields()[j]\<close>. Indexing a Go slice out of range
  panics; \<open>None\<close> is that panic.
\<close>

fun build_row ::
  "('v, 't) lib \<Rightarrow> FieldHeader list \<Rightarrow> nat \<Rightarrow> 'v option list \<Rightarrow> string list option" where
  "build_row L hs j [] = Some []"
| "build_row L hs j (v # vs) =
     (if j < length hs
      then map_option ((#) (formatValueForCSV L v (hs ! j))) (build_row L hs (Suc j) vs)
      else None)"

section \<open>main.go: exportToCSV\<close>

text \<open>
  The operating system is a parameter: which bytes separate path elements,
  \<^verbatim>\<open>strings.ToLower\<close>, \<^verbatim>\<open>dbf.OpenFile\<close>, \<^verbatim>\<open>os.Create\<close> (\<open>None\<close> is success), and
  the two things that decide what a buffered writer does. \<open>Overflows\<close> tells, from the
  rows in the file, the rows in the buffer and a new row, whether the new row no longer
  fits into the buffer. \<open>FileWrite\<close> is the write of buffered rows to the file: \<open>None\<close>
  when all of them reach the file, \<open>Some (err, k)\<close> when it fails with \<open>err\<close> after
  \<open>k\<close> of them.
\<close>

datatype Decoder = Big5Decoder | UTF8Decoder | Win1250Decoder

record ('e, 'v) sys =
  IsPathSeparator :: "char \<Rightarrow> bool"
  ToLower :: "string \<Rightarrow> string"
  OpenFile :: "string \<Rightarrow> Decoder \<Rightarrow> 'e + ('e, 'v) DBF"
  Create :: "string \<Rightarrow> 'e option"
  Overflows :: "string list list \<Rightarrow> string list list \<Rightarrow> string list \<Rightarrow> bool"
  FileWrite :: "string list list \<Rightarrow> string list list \<Rightarrow> ('e \<times> nat) option"

text \<open>What the program prints, on standard output or through package log.\<close>

datatype 'e msg =
    Usage
  | Opening string string
  | WillExport string
  | Unsupported string
  | TotalRecords "32 word"
  | NumberOfFields int
  | FieldNamesLine "string list"
  | Exporting string
  | ReadError "32 word" 'e
  | Processed "32 word" "32 word"
  | Exported "32 word" string

datatype 'e export_error = CreateFailed 'e | HeaderFailed 'e | RowFailed "32 word" 'e

text \<open>exportToCSV returns nil, returns an error, or panics.\<close>

datatype 'e ret = ReturnNil | ReturnErr "'e export_error" | Panicked

text \<open>
  The state of one export. \<^verbatim>\<open>csv.NewWriter(file)\<close> puts a buffered writer in front of the
  file: \<open>file_rows\<close> are the rows that have reached the file, \<open>buffered\<close> the rows that
  \<^verbatim>\<open>writer.Write\<close> has accepted and that are still in the buffer, \<open>werr\<close> the error the
  writer keeps once a write to the file has failed. A row counts as in the file when its
  line end is. Then the console and the local counter \<^verbatim>\<open>processedRecords\<close> (a
  \<^verbatim>\<open>uint32\<close>).
\<close>

record 'e estate =
  file_rows :: "string list list"
  buffered :: "string list list"
  werr :: "'e option"
  console :: "'e msg list"
  processedRecords :: "32 word"

text \<open>
  \<^verbatim>\<open>writer.Write(row)\<close>. A writer that keeps an error returns it. A row that fits is
  appended to the buffer, and nothing is written to the file. A row that does not fit
  makes the writer write the buffer to the file first: when that succeeds the buffered
  rows are in the file and the new row is in the buffer; when it fails, the writer keeps
  the error and \<^verbatim>\<open>Write\<close> returns it.
\<close>

definition writer_Write ::
  "('e, 'v) sys \<Rightarrow> 'e estate \<Rightarrow> string list \<Rightarrow> 'e option \<times> 'e estate" where
  "writer_Write S st row =
     (case werr st of
        Some err \<Rightarrow> (Some err, st)
      | None \<Rightarrow>
          if Overflows S (file_rows st) (buffered st) row then
            (case FileWrite S (file_rows st) (buffered st) of
               None \<Rightarrow>
                 (None, st\<lparr>file_rows := file_rows st @ buffered st, buffered := [row]\<rparr>)
             | Some (err, k) \<Rightarrow>
                 (Some err,
                  st\<lparr>file_rows := file_rows st @ take k (buffered st),
                     buffered := drop k (buffered st), werr := Some err\<rparr>))
          else (None, st\<lparr>buffered := buffered st @ [row]\<rparr>))"

text \<open>
  \<^verbatim>\<open>writer.Flush()\<close>, deferred at line 217. It returns nothing: a failure is kept in the
  writer, and exportToCSV never asks the writer for it. A writer that keeps an error, or
  whose buffer is empty, writes nothing.
\<close>

definition writer_Flush :: "('e, 'v) sys \<Rightarrow> 'e estate \<Rightarrow> 'e estate" where
  "writer_Flush S st =
     (case werr st of
        Some err \<Rightarrow> st
      | None \<Rightarrow>
          if buffered st = [] then st
          else
            (case FileWrite S (file_rows st) (buffered st) of
               None \<Rightarrow> st\<lparr>file_rows := file_rows st @ buffered st, buffered := []\<rparr>
             | Some (err, k) \<Rightarrow>
                 st\<lparr>file_rows := file_rows st @ take k (buffered st),
                    buffered := drop k (buffered st), werr := Some err\<rparr>))"

datatype 'e step = Continue "'e estate" | Stop "'e ret" "'e estate"

text \<open>One pass through the body of the loop of lines 229 to 261, at index \<open>i\<close>.\<close>

definition export_body ::
  "('e, 'v) sys \<Rightarrow> ('v, 't) lib \<Rightarrow> ('e, 'v) DBF \<Rightarrow> bool \<Rightarrow> 32 word \<Rightarrow> 32 word \<Rightarrow>
     'e estate \<Rightarrow> 'e step" where
  "export_body S L d silent totalRecords i st =
     (case RecordAt d i of
        Inl err \<Rightarrow>
          Continue (if \<not> silent then st\<lparr>console := console st @ [ReadError i err]\<rparr> else st)
      | Inr record \<Rightarrow>
          if Deleted record then Continue st
          else
            (case build_row L (Fields d) 0 (FieldSlice record) of
               None \<Rightarrow> Stop Panicked st
             | Some csvRow \<Rightarrow>
                 (case writer_Write S st csvRow of
                    (Some err, st1) \<Rightarrow> Stop (ReturnErr (RowFailed i err)) st1
                  | (None, st1) \<Rightarrow>
                      (let st2 = st1\<lparr>processedRecords := processedRecords st1 + 1\<rparr>
                       in Continue
                            (if \<not> silent \<and> 1000 < totalRecords \<and>
                                processedRecords st2 mod 1000 = 0
                             then st2\<lparr>console := console st2 @
                                        [Processed (processedRecords st2) totalRecords]\<rparr>
                             else st2)))))"

function export_loop ::
  "('e, 'v) sys \<Rightarrow> ('v, 't) lib \<Rightarrow> ('e, 'v) DBF \<Rightarrow> bool \<Rightarrow> 32 word \<Rightarrow> 32 word \<Rightarrow>
     'e estate \<Rightarrow> 'e ret \<times> 'e estate" where
  "export_loop S L d silent totalRecords i st =
     (if i < totalRecords
      then (case export_body S L d silent totalRecords i st of
              Continue st1 \<Rightarrow> export_loop S L d silent totalRecords (i + 1) st1
            | Stop r st1 \<Rightarrow> (r, st1))
      else (ReturnNil, st))"
  by pat_completeness auto
termination
proof (relation "measure (\<lambda>(S, L, d, silent, totalRecords, i, st). unat totalRecords - unat i)",
    goal_cases)
  case 1
  show ?case by simp
next
  case (2 S L d silent totalRecords i st st1)
  then have "unat i < unat totalRecords" by (simp add: word_less_nat_alt)
  moreover have "unat totalRecords < 2 ^ 32"
    using unsigned_less [of totalRecords, where ?'a = nat] by simp
  ultimately have "unat i + unat (1 :: 32 word) < 2 ^ LENGTH(32)" by simp
  then have "unat (i + 1) = unat i + unat (1 :: 32 word)"
    by (rule unat_add_lem [THEN iffD1])
  with \<open>unat i < unat totalRecords\<close> show ?case by simp
qed

text \<open>
  exportToCSV. When \<^verbatim>\<open>os.Create\<close> fails it returns before anything is deferred. After
  that, every way out (a header error, a row error, a panic, the end of the loop) runs
  the deferred \<^verbatim>\<open>writer.Flush()\<close>.
\<close>

definition exportToCSV ::
  "('e, 'v) sys \<Rightarrow> ('v, 't) lib \<Rightarrow> ('e, 'v) DBF \<Rightarrow> string \<Rightarrow> bool \<Rightarrow> 'e ret \<times> 'e estate" where
  "exportToCSV S L d filename silent =
     (let st0 = \<lparr>file_rows = [], buffered = [], werr = None,
                 console = (if \<not> silent then [Exporting filename] else []),
                 processedRecords = 0\<rparr>
      in case Create S filename of
           Some err \<Rightarrow> (ReturnErr (CreateFailed err), st0)
         | None \<Rightarrow>
             (case writer_Write S st0 (FieldNames d) of
                (Some err, st1) \<Rightarrow> (ReturnErr (HeaderFailed err), writer_Flush S st1)
              | (None, st1) \<Rightarrow>
                  (let res = export_loop S L d silent (NumRecords d) 0 st1
                   in (fst res, writer_Flush S (snd res)))))"

section \<open>main.go: main, lines 15 to 100\<close>

record args =
  dbfFile :: string
  encoding :: string
  csvOutput :: string
  noDisplay :: bool

text \<open>The body of the argument loop of lines 36 to 51, at position \<open>i\<close>.\<close>

definition parse_arg :: "('e, 'v) sys \<Rightarrow> nat \<Rightarrow> string \<Rightarrow> args \<Rightarrow> args" where
  "parse_arg S i arg a =
     (if HasPrefix arg ''--csv'' then
        (if arg = ''--csv'' then
           a\<lparr>csvOutput := TrimSuffix (dbfFile a) (Ext (IsPathSeparator S) (dbfFile a)) @ ''.csv''\<rparr>
         else if HasPrefix arg ''--csv='' then a\<lparr>csvOutput := TrimPrefix arg ''--csv=''\<rparr>
         else a)
      else if arg = ''--no-display'' then a\<lparr>noDisplay := True\<rparr>
      else if i = 2 \<and> \<not> HasPrefix arg ''--'' then a\<lparr>encoding := ToLower S arg\<rparr>
      else a)"

function parse_loop :: "('e, 'v) sys \<Rightarrow> string list \<Rightarrow> nat \<Rightarrow> args \<Rightarrow> args" where
  "parse_loop S osArgs i a =
     (if i < length osArgs then parse_loop S osArgs (i + 1) (parse_arg S i (osArgs ! i) a) else a)"
  by pat_completeness auto
termination
  by (relation "measure (\<lambda>(S, osArgs, i, a). length osArgs - i)") auto

text \<open>Lines 30 to 51; called with at least two arguments.\<close>

definition parse_args :: "('e, 'v) sys \<Rightarrow> string list \<Rightarrow> args" where
  "parse_args S osArgs =
     parse_loop S osArgs 2
       \<lparr>dbfFile = osArgs ! 1, encoding = ''big5'', csvOutput = [], noDisplay = False\<rparr>"

text \<open>The switch of lines 62 to 72: the decoder, and what the default branch prints.\<close>

definition select_decoder :: "string \<Rightarrow> Decoder \<times> 'e msg list" where
  "select_decoder enc =
     (if enc = ''big5'' then (Big5Decoder, [])
      else if enc = ''utf8'' then (UTF8Decoder, [])
      else if enc = ''win1250'' then (Win1250Decoder, [])
      else (Win1250Decoder, [Unsupported enc]))"

text \<open>
  How a run ends: the usage exit, a fatal log (open or export), a panic inside the
  export, the early return of line 98, or control reaching line 102, where the console
  narration begins (it is not part of this model).
\<close>

datatype 'e ending =
    UsageExit
  | FatalOpen 'e
  | FatalExport "'e export_error"
  | ExportPanicked
  | ReturnedAfterExport
  | DisplayPhase

record 'e run =
  stdout :: "'e msg list"
  opened :: "(string \<times> Decoder) option"
  exported :: "('e ret \<times> 'e estate) option"
  ending :: "'e ending"

definition main :: "('e, 'v) sys \<Rightarrow> ('v, 't) lib \<Rightarrow> string list \<Rightarrow> 'e run" where
  "main S L osArgs =
     (if length osArgs < 2
      then \<lparr>stdout = [Usage], opened = None, exported = None, ending = UsageExit\<rparr>
      else
        (let a = parse_args S osArgs;
             c1 = (if \<not> noDisplay a
                   then Opening (dbfFile a) (encoding a) #
                        (if csvOutput a \<noteq> [] then [WillExport (csvOutput a)] else [])
                   else []);
             sel = select_decoder (encoding a);
             decoder = fst sel;
             c2 = c1 @ snd sel
         in case OpenFile S (dbfFile a) decoder of
              Inl err \<Rightarrow>
                \<lparr>stdout = c2, opened = Some (dbfFile a, decoder), exported = None,
                 ending = FatalOpen err\<rparr>
            | Inr d \<Rightarrow>
                (let c3 = c2 @ (if \<not> noDisplay a
                                then [TotalRecords (NumRecords d), NumberOfFields (NumFields d),
                                      FieldNamesLine (FieldNames d)]
                                else [])
                 in if csvOutput a \<noteq> [] then
                      (let res = exportToCSV S L d (csvOutput a) (noDisplay a);
                           c4 = c3 @ console (snd res)
                       in case fst res of
                            ReturnErr err \<Rightarrow>
                              \<lparr>stdout = c4, opened = Some (dbfFile a, decoder),
                               exported = Some res, ending = FatalExport err\<rparr>
                          | Panicked \<Rightarrow>
                              \<lparr>stdout = c4, opened = Some (dbfFile a, decoder),
                               exported = Some res, ending = ExportPanicked\<rparr>
                          | ReturnNil \<Rightarrow>
                              (if \<not> noDisplay a
                               then \<lparr>stdout = c4 @ [Exported (NumRecords d) (csvOutput a)],
                                     opened = Some (dbfFile a, decoder),
                                     exported = Some res, ending = DisplayPhase\<rparr>
                               else \<lparr>stdout = c4, opened = Some (dbfFile a, decoder),
                                     exported = Some res, ending = ReturnedAfterExport\<rparr>))
                    else \<lparr>stdout = c3, opened = Some (dbfFile a, decoder), exported = None,
                          ending = DisplayPhase\<rparr>)))"

section \<open>The loop as a run over its indices\<close>

text \<open>
  The loop of exportToCSV visits the indices \<open>i, i + 1, ...\<close> below the record count;
  \<open>run_indices\<close> is the same run over an explicit list of indices. A record is live
  when its fetch succeeds and it is not deleted; \<open>row_at\<close> is the row the loop builds
  for an index; the accepted rows are those \<^verbatim>\<open>writer.Write\<close> returned nil for, in the
  file or still in the buffer; a record fits when it has as many values as the table has
  field headers.
\<close>

fun run_indices ::
  "('e, 'v) sys \<Rightarrow> ('v, 't) lib \<Rightarrow> ('e, 'v) DBF \<Rightarrow> bool \<Rightarrow> 32 word \<Rightarrow> 32 word list \<Rightarrow>
     'e estate \<Rightarrow> 'e ret \<times> 'e estate" where
  "run_indices S L d silent totalRecords [] st = (ReturnNil, st)"
| "run_indices S L d silent totalRecords (i # is) st =
     (case export_body S L d silent totalRecords i st of
        Continue st1 \<Rightarrow> run_indices S L d silent totalRecords is st1
      | Stop r st1 \<Rightarrow> (r, st1))"

definition indices_from :: "32 word \<Rightarrow> 32 word \<Rightarrow> 32 word list" where
  "indices_from i totalRecords = map of_nat [unat i..<unat totalRecords]"

definition live :: "('e, 'v) DBF \<Rightarrow> 32 word \<Rightarrow> bool" where
  "live d i = (case RecordAt d i of Inl err \<Rightarrow> False | Inr record \<Rightarrow> \<not> Deleted record)"

definition deleted_at :: "('e, 'v) DBF \<Rightarrow> 32 word \<Rightarrow> bool" where
  "deleted_at d i = (case RecordAt d i of Inl err \<Rightarrow> False | Inr record \<Rightarrow> Deleted record)"

definition row_at :: "('v, 't) lib \<Rightarrow> ('e, 'v) DBF \<Rightarrow> 32 word \<Rightarrow> string list" where
  "row_at L d i =
     (case RecordAt d i of
        Inl err \<Rightarrow> []
      | Inr record \<Rightarrow>
          (case build_row L (Fields d) 0 (FieldSlice record) of None \<Rightarrow> [] | Some row \<Rightarrow> row))"

definition accepted :: "'e estate \<Rightarrow> string list list" where
  "accepted st = file_rows st @ buffered st"

definition fits :: "('e, 'v) DBF \<Rightarrow> 32 word \<Rightarrow> bool" where
  "fits d i =
     (case RecordAt d i of
        Inl err \<Rightarrow> True
      | Inr record \<Rightarrow> length (FieldSlice record) = length (Fields d))"

text \<open>A decimal digit, for stating what a formatted number looks like.\<close>

definition is_digit :: "char \<Rightarrow> bool" where
  "is_digit c = (c \<in> set ''0123456789'')"

declare digits10.simps [simp del]
declare export_loop.simps [simp del]
declare parse_loop.simps [simp del]

section \<open>A concrete table\<close>

text \<open>
  An instance of the parameters, for evaluating the model on concrete inputs: values of
  the dynamic types string, int64, float64, bool, time and byte slice; conversions that
  return the value when it has the wanted type and the zero value otherwise; a time given
  by its calendar fields, zero at 1 January of year 1, 00:00:00. The table below has no
  column that asks for the shortest float formatting, and \<^verbatim>\<open>%v\<close> is given for strings,
  booleans and integers only; both return the empty string elsewhere.
\<close>

datatype civil = Civil int nat nat nat nat nat

datatype gval =
    GString string
  | GInt64 "64 word"
  | GFloat64 float64
  | GBool bool
  | GTime civil
  | GBytes "8 word list"

definition TrimSpace :: "string \<Rightarrow> string" where
  "TrimSpace s = rev (dropWhile (\<lambda>c. c = CHR '' '') (rev (dropWhile (\<lambda>c. c = CHR '' '') s)))"

definition example_lib :: "(gval, civil) lib" where
  "example_lib =
     \<lparr>ToTrimmedString = (\<lambda>v. case v of Some (GString s) \<Rightarrow> TrimSpace s | _ \<Rightarrow> []),
      ToString = (\<lambda>v. case v of Some (GString s) \<Rightarrow> s | _ \<Rightarrow> []),
      ToInt64 = (\<lambda>v. case v of Some (GInt64 i) \<Rightarrow> i | _ \<Rightarrow> 0),
      ToFloat64 = (\<lambda>v. case v of Some (GFloat64 x) \<Rightarrow> x | _ \<Rightarrow> Float False 0 0),
      ToBool = (\<lambda>v. case v of Some (GBool b) \<Rightarrow> b | _ \<Rightarrow> False),
      ToTime = (\<lambda>v. case v of Some (GTime t) \<Rightarrow> t | _ \<Rightarrow> Civil 1 1 1 0 0 0),
      IsZero = (\<lambda>t. t = Civil 1 1 1 0 0 0),
      Year = (\<lambda>t. case t of Civil y mo d h mi s \<Rightarrow> y),
      Month = (\<lambda>t. case t of Civil y mo d h mi s \<Rightarrow> mo),
      Day = (\<lambda>t. case t of Civil y mo d h mi s \<Rightarrow> d),
      Hour = (\<lambda>t. case t of Civil y mo d h mi s \<Rightarrow> h),
      Minute = (\<lambda>t. case t of Civil y mo d h mi s \<Rightarrow> mi),
      Second = (\<lambda>t. case t of Civil y mo d h mi s \<Rightarrow> s),
      FormatFloat_shortest = (\<lambda>x. []),
      Sprintf_v = (\<lambda>v. case v of GString s \<Rightarrow> s | GBool b \<Rightarrow> (if b then ''true'' else ''false'')
                         | GInt64 i \<Rightarrow> FormatInt10 i | _ \<Rightarrow> [])\<rparr>"

text \<open>
  A table of four records: the first deleted, the second failing to load, the third
  holding the text \<open>" Hello "\<close> and the float64 nearest to 12.345 in a numeric column of
  scale 2, the fourth holding \<open>"World"\<close> and 2.5.
\<close>

definition example_fields :: "FieldHeader list" where
  "example_fields =
     [\<lparr>FieldName = ''NAME'', FieldType = ''C'', Len = 7, Decimals = 0\<rparr>,
      \<lparr>FieldName = ''PRICE'', FieldType = ''N'', Len = 8, Decimals = 2\<rparr>]"

definition example_deleted :: "gval Record" where
  "example_deleted =
     \<lparr>Deleted = True, FieldSlice = [Some (GString ''gone''), Some (GFloat64 (Float False 1 0))]\<rparr>"

definition example_hello :: "gval Record" where
  "example_hello =
     \<lparr>Deleted = False,
      FieldSlice = [Some (GString '' Hello ''),
                    Some (GFloat64 (Float False 6949617174986097 (- 49)))]\<rparr>"

definition example_world :: "gval Record" where
  "example_world =
     \<lparr>Deleted = False,
      FieldSlice = [Some (GString ''World''), Some (GFloat64 (Float False 5 (- 1)))]\<rparr>"

definition example_dbf :: "(string, gval) DBF" where
  "example_dbf =
     \<lparr>NumRecords = 4, NumFields = 2, FieldNames = [''NAME'', ''PRICE''],
      Fields = example_fields,
      RecordAt = (\<lambda>i.
        if i = 0 then Inr example_deleted
        else if i = 1 then Inl ''corrupt''
        else if i = 2 then Inr example_hello
        else if i = 3 then Inr example_world
        else Inl ''eof'')\<rparr>"

text \<open>
  A system where \<^verbatim>\<open>t.dbf\<close> opens as that table and every file can be created. The
  buffer holds \<open>cap\<close> rows. With \<open>limit = None\<close> every write to the file succeeds; with
  \<open>limit = Some n\<close> the file takes \<open>n\<close> rows and a write that would exceed them fails
  after filling the file (\<open>n = 0\<close> is a full device).
\<close>

definition example_sys :: "nat \<Rightarrow> nat option \<Rightarrow> (string, gval) sys" where
  "example_sys cap limit =
     \<lparr>IsPathSeparator = (\<lambda>c. c = CHR ''/''),
      ToLower = (\<lambda>s. s),
      OpenFile = (\<lambda>path dec. if path = ''t.dbf'' then Inr example_dbf else Inl ''no such file''),
      Create = (\<lambda>path. None),
      Overflows = (\<lambda>in_file in_buffer row. cap \<le> length in_buffer),
      FileWrite = (\<lambda>in_file rows.
        case limit of
          None \<Rightarrow> None
        | Some n \<Rightarrow>
            if n < length in_file + length rows then Some (''no space'', n - length in_file)
            else None)\<rparr>"

text \<open>The state of an export of that table once the header is in the buffer.\<close>

definition example_started :: "string estate" where
  "example_started =
     \<lparr>file_rows = [], buffered = [[''NAME'', ''PRICE'']], werr = None,
      console = [Exporting ''t.csv''], processedRecords = 0\<rparr>"

section \<open>Properties of the export loop\<close>

lemma unat_succ_below:
  fixes i totalRecords :: "32 word"
  assumes "i < totalRecords"
  shows "unat (i + 1) = Suc (unat i)"
proof -
  from assms have "unat i < unat totalRecords" by (simp add: word_less_nat_alt)
  moreover have "unat totalRecords < 2 ^ 32"
    using unsigned_less [of totalRecords, where ?'a = nat] by simp
  ultimately have "unat i + unat (1 :: 32 word) < 2 ^ LENGTH(32)" by simp
  then have "unat (i + 1) = unat i + unat (1 :: 32 word)"
    by (rule unat_add_lem [THEN iffD1])
  then show ?thesis by simp
qed

lemma indices_from_step:
  assumes "i < totalRecords"
  shows "indices_from i totalRecords = i # indices_from (i + 1) totalRecords"
proof -
  from assms have lt: "unat i < unat totalRecords" by (simp add: word_less_nat_alt)
  then have "[unat i..<unat totalRecords] = unat i # [Suc (unat i)..<unat totalRecords]"
    by (rule upt_conv_Cons)
  then show ?thesis
    by (simp add: indices_from_def unat_succ_below [OF assms])
qed

lemma indices_from_done: "\<not> i < totalRecords \<Longrightarrow> indices_from i totalRecords = []"
  by (simp add: indices_from_def word_less_nat_alt)

lemma export_loop_run_indices:
  "export_loop S L d silent totalRecords i st =
     run_indices S L d silent totalRecords (indices_from i totalRecords) st"
proof (induction S L d silent totalRecords i st rule: export_loop.induct)
  case (1 S L d silent totalRecords i st)
  show ?case
  proof (cases "i < totalRecords")
    case True
    then show ?thesis
      using "1.IH" 
      by (subst export_loop.simps) (simp add: indices_from_step split: step.splits)
  next
    case False
    then show ?thesis
      by (subst export_loop.simps) (simp add: indices_from_done)
  qed
qed

lemma build_row_zip:
  "j + length vs \<le> length hs \<Longrightarrow>
     build_row L hs j vs = Some (map2 (formatValueForCSV L) vs (drop j hs))"
proof (induction vs arbitrary: j)
  case Nil
  then show ?case by simp
next
  case (Cons v vs)
  then have j: "j < length hs" and rest: "Suc j + length vs \<le> length hs" by simp_all
  from j have "drop j hs = hs ! j # drop (Suc j) hs" by (simp add: Cons_nth_drop_Suc)
  with Cons.IH [OF rest] j show ?case by simp
qed

lemma build_row_short:
  "j \<le> length hs \<Longrightarrow> length hs < j + length vs \<Longrightarrow> build_row L hs j vs = None"
  by (induction vs arbitrary: j) auto

lemma build_row_total_iff:
  "build_row L hs 0 vs \<noteq> None \<longleftrightarrow> length vs \<le> length hs"
proof (cases "length vs \<le> length hs")
  case True
  then show ?thesis using build_row_zip [where j = 0 and vs = vs and hs = hs and L = L] by simp
next
  case False
  then show ?thesis using build_row_short [where j = 0 and vs = vs and hs = hs and L = L] by simp
qed

lemma writer_Write_None:
  assumes "writer_Write S st row = (None, st1)"
  shows "accepted st1 = accepted st @ [row] \<and> werr st1 = werr st \<and> werr st = None \<and>
         console st1 = console st \<and> processedRecords st1 = processedRecords st"
  using assms
  by (auto simp: writer_Write_def accepted_def split: option.splits if_splits prod.splits)

lemma writer_Write_Some:
  assumes "writer_Write S st row = (Some err, st1)"
  shows "accepted st1 = accepted st \<and> werr st1 = Some err \<and>
         console st1 = console st \<and> processedRecords st1 = processedRecords st"
  using assms
  by (auto simp: writer_Write_def accepted_def split: option.splits if_splits prod.splits)

lemma writer_Write_reliable:
  assumes "\<And>in_file rows. FileWrite S in_file rows = None" and "werr st = None"
  shows "\<exists>st1. writer_Write S st row = (None, st1)"
  using assms by (simp add: writer_Write_def)

lemma writer_Flush_keeps:
  "accepted (writer_Flush S st) = accepted st \<and>
   console (writer_Flush S st) = console st \<and>
   processedRecords (writer_Flush S st) = processedRecords st"
  by (simp add: writer_Flush_def accepted_def split: option.splits prod.splits)

lemma writer_Flush_empties:
  "werr (writer_Flush S st) = None \<Longrightarrow> buffered (writer_Flush S st) = []"
  by (simp add: writer_Flush_def split: option.splits prod.splits if_splits)

lemma writer_Flush_reliable:
  assumes "\<And>in_file rows. FileWrite S in_file rows = None" and "werr st = None"
  shows "file_rows (writer_Flush S st) = accepted st \<and> buffered (writer_Flush S st) = [] \<and>
         werr (writer_Flush S st) = None"
  using assms by (simp add: writer_Flush_def accepted_def)

lemma export_body_Stop:
  assumes "export_body S L d silent n i st = Stop r st1"
  shows "r \<noteq> ReturnNil \<and> accepted st1 = accepted st \<and>
         processedRecords st1 = processedRecords st"
proof (cases "RecordAt d i")
  case (Inl err)
  with assms show ?thesis by (simp add: export_body_def)
next
  case (Inr rc)
  show ?thesis
  proof (cases "build_row L (Fields d) 0 (FieldSlice rc)")
    case None
    with Inr assms show ?thesis by (auto simp: export_body_def split: if_splits)
  next
    case (Some row)
    obtain res st2 where w: "writer_Write S st row = (res, st2)"
      by (cases "writer_Write S st row")
    with Inr Some assms obtain err where "res = Some err" and "st1 = st2" and "r \<noteq> ReturnNil"
      by (cases res) (auto simp: export_body_def Let_def split: if_splits)
    with w writer_Write_Some [of S st row err st2] show ?thesis by simp
  qed
qed

lemma export_body_Continue:
  assumes "export_body S L d silent n i st = Continue st1"
  shows "accepted st1 = accepted st @ (if live d i then [row_at L d i] else []) \<and>
         processedRecords st1 = processedRecords st + (if live d i then 1 else 0) \<and>
         werr st1 = werr st"
proof (cases "RecordAt d i")
  case (Inl err)
  with assms show ?thesis
    by (auto simp: export_body_def live_def accepted_def split: if_splits)
next
  case (Inr rc)
  show ?thesis
  proof (cases "Deleted rc")
    case True
    with Inr assms show ?thesis by (simp add: export_body_def live_def)
  next
    case False
    with Inr assms obtain row where row: "build_row L (Fields d) 0 (FieldSlice rc) = Some row"
      by (cases "build_row L (Fields d) 0 (FieldSlice rc)") (auto simp: export_body_def)
    obtain res st2 where w: "writer_Write S st row = (res, st2)"
      by (cases "writer_Write S st row")
    with Inr False row assms have res: "res = None"
      by (cases res) (auto simp: export_body_def)
    with Inr False row w assms
    have "accepted st1 = accepted st2" and "werr st1 = werr st2"
      and "processedRecords st1 = processedRecords st2 + 1"
      by (auto simp: export_body_def Let_def accepted_def split: if_splits)
    moreover from Inr False row have "live d i" and "row_at L d i = row"
      by (simp_all add: live_def row_at_def)
    ultimately show ?thesis
      using writer_Write_None [of S st row st2] w res by simp
  qed
qed

lemma run_indices_accepted:
  "run_indices S L d silent n is st = (r, st1) \<Longrightarrow>
     \<exists>rows. accepted st1 = accepted st @ rows \<and> length rows \<le> length is \<and>
            processedRecords st1 = processedRecords st + of_nat (length rows)"
proof (induction "is" arbitrary: st)
  case Nil
  then show ?case by simp
next
  case (Cons i "is")
  show ?case
  proof (cases "export_body S L d silent n i st")
    case (Continue st2)
    with Cons.prems have "run_indices S L d silent n is st2 = (r, st1)" by simp
    from Cons.IH [OF this] obtain rows where
      rows: "accepted st1 = accepted st2 @ rows" "length rows \<le> length is"
        "processedRecords st1 = processedRecords st2 + of_nat (length rows)"
      by blast
    let ?new = "if live d i then [row_at L d i] else []"
    from export_body_Continue [OF Continue] rows
    have "accepted st1 = accepted st @ (?new @ rows)"
      and "length (?new @ rows) \<le> length (i # is)"
      and "processedRecords st1 = processedRecords st + of_nat (length (?new @ rows))"
      by simp_all
    then show ?thesis by blast
  next
    case (Stop r2 st2)
    with Cons.prems have "st1 = st2" by simp
    with export_body_Stop [OF Stop]
    have "accepted st1 = accepted st @ []" and "length ([] :: string list list) \<le> length (i # is)"
      and "processedRecords st1 = processedRecords st + of_nat (length ([] :: string list list))"
      by simp_all
    then show ?thesis by blast
  qed
qed

lemma run_indices_nil:
  "run_indices S L d silent n is st = (ReturnNil, st1) \<Longrightarrow>
     accepted st1 = accepted st @ map (row_at L d) (filter (live d) is) \<and> werr st1 = werr st"
proof (induction "is" arbitrary: st)
  case Nil
  then show ?case by simp
next
  case (Cons i "is")
  show ?case
  proof (cases "export_body S L d silent n i st")
    case (Continue st2)
    with Cons.prems have "run_indices S L d silent n is st2 = (ReturnNil, st1)" by simp
    from Cons.IH [OF this] export_body_Continue [OF Continue]
    show ?thesis by simp
  next
    case (Stop r2 st2)
    with Cons.prems export_body_Stop [OF Stop] show ?thesis by simp
  qed
qed

lemma export_body_no_stop:
  assumes "fits d i" and "\<And>in_file rows. FileWrite S in_file rows = None"
    and "werr st = None"
  shows "\<exists>st1. export_body S L d silent n i st = Continue st1"
proof (cases "RecordAt d i")
  case (Inl err)
  then show ?thesis by (simp add: export_body_def)
next
  case (Inr rc)
  with assms(1) have len: "0 + length (FieldSlice rc) \<le> length (Fields d)"
    by (simp add: fits_def)
  obtain row where row: "build_row L (Fields d) 0 (FieldSlice rc) = Some row"
    using build_row_zip [OF len] by blast
  from writer_Write_reliable [OF assms(2,3)] obtain st2 where
    "writer_Write S st row = (None, st2)" by blast
  with Inr row show ?thesis by (simp add: export_body_def Let_def)
qed

lemma run_indices_returns_nil:
  assumes "\<And>i. i \<in> set is \<Longrightarrow> fits d i"
    and "\<And>in_file rows. FileWrite S in_file rows = None"
    and "werr st = None"
  shows "fst (run_indices S L d silent n is st) = ReturnNil"
  using assms(1,3)
proof (induction "is" arbitrary: st)
  case Nil
  then show ?case by simp
next
  case (Cons i "is")
  from Cons.prems have "fits d i" by simp
  from export_body_no_stop [OF this assms(2) Cons.prems(2)] obtain st2 where
    body: "export_body S L d silent n i st = Continue st2" by blast
  with export_body_Continue [OF body] Cons.prems(2) have "werr st2 = None" by simp
  then have "fst (run_indices S L d silent n is st2) = ReturnNil"
    using Cons.prems(1) by (intro Cons.IH) simp_all
  with body show ?case by simp
qed

lemma indices_from_length: "length (indices_from 0 n) = unat n"
  by (simp add: indices_from_def)

lemma unat_of_nat_below:
  fixes n :: "32 word"
  assumes "p < unat n"
  shows "unat (of_nat p :: 32 word) = p"
  using assms by (intro le_unat_uoi [of p n]) simp

lemma indices_from_set: "set (indices_from 0 n) = {i. i < n}"
proof (intro set_eqI iffI)
  fix i assume "i \<in> set (indices_from 0 n)"
  then obtain p where p: "p < unat n" and i: "i = of_nat p"
    by (auto simp: indices_from_def)
  from unat_of_nat_below [OF p] i p have "unat i < unat n" by simp
  then show "i \<in> {i. i < n}" by (simp add: word_less_nat_alt)
next
  fix i assume "i \<in> {i. i < n}"
  then have "unat i < unat n" by (simp add: word_less_nat_alt)
  then have "unat i \<in> {0..<unat n}" by simp
  then have "(of_nat (unat i) :: 32 word) \<in> of_nat ` {0..<unat n}" by (rule imageI)
  then show "i \<in> set (indices_from 0 n)" by (simp add: indices_from_def)
qed

lemma indices_from_distinct: "distinct (indices_from 0 n)"
proof -
  have "inj_on (of_nat :: nat \<Rightarrow> 32 word) (set [0..<unat n])"
    by (rule inj_on_inverseI [where g = unat]) (simp add: unat_of_nat_below)
  then show ?thesis by (simp add: indices_from_def distinct_map)
qed

lemma length_filter_either:
  "\<forall>x \<in> set xs. P x \<noteq> Q x \<Longrightarrow> length (filter P xs) + length (filter Q xs) = length xs"
  by (induction xs) auto

lemma length_filter_but_one:
  assumes "distinct xs" and "k \<in> set xs" and "\<not> P k" and "\<not> Q k"
    and "\<forall>x \<in> set xs. x \<noteq> k \<longrightarrow> P x \<noteq> Q x"
  shows "length (filter P xs) + length (filter Q xs) + 1 = length xs"
  using assms(1,2,5)
proof (induction xs)
  case Nil
  then show ?case by simp
next
  case (Cons x xs)
  show ?case
  proof (cases "x = k")
    case True
    with Cons.prems have "\<forall>y \<in> set xs. P y \<noteq> Q y" by auto
    from length_filter_either [OF this] True assms(3,4) show ?thesis by simp
  next
    case False
    with Cons.prems have "length (filter P xs) + length (filter Q xs) + 1 = length xs"
      by (intro Cons.IH) auto
    moreover from False Cons.prems have "P x \<noteq> Q x" by simp
    ultimately show ?thesis by auto
  qed
qed

text \<open>
  The three ways through exportToCSV: the file cannot be created, the header is refused,
  or the loop runs over all indices; the last two end with the deferred flush.
\<close>

lemma exportToCSV_cases:
  "exportToCSV S L d f silent =
     (case Create S f of
        Some err \<Rightarrow>
          (ReturnErr (CreateFailed err),
           \<lparr>file_rows = [], buffered = [], werr = None,
            console = (if \<not> silent then [Exporting f] else []), processedRecords = 0\<rparr>)
      | None \<Rightarrow>
          (case writer_Write S
                  \<lparr>file_rows = [], buffered = [], werr = None,
                   console = (if \<not> silent then [Exporting f] else []), processedRecords = 0\<rparr>
                  (FieldNames d) of
             (Some err, st1) \<Rightarrow> (ReturnErr (HeaderFailed err), writer_Flush S st1)
           | (None, st1) \<Rightarrow>
               (fst (run_indices S L d silent (NumRecords d) (indices_from 0 (NumRecords d)) st1),
                writer_Flush S
                  (snd (run_indices S L d silent (NumRecords d)
                          (indices_from 0 (NumRecords d)) st1)))))"
  by (simp add: exportToCSV_def export_loop_run_indices Let_def
        split: option.splits prod.splits)

lemma header_accepted:
  assumes "writer_Write S
             \<lparr>file_rows = [], buffered = [], werr = None, console = c, processedRecords = 0\<rparr>
             hdr = (None, st1)"
  shows "accepted st1 = [hdr] \<and> processedRecords st1 = 0 \<and> werr st1 = None"
  using writer_Write_None [OF assms] by (simp add: accepted_def)

lemma exportToCSV_counter:
  assumes "exportToCSV S L d f silent = (r, st)"
  shows "unat (processedRecords st) = length (tl (accepted st))"
proof -
  let ?st0 = "\<lparr>file_rows = [], buffered = [], werr = None,
               console = (if \<not> silent then [Exporting f] else []), processedRecords = 0\<rparr>"
  show ?thesis
  proof (cases "Create S f")
    case (Some err)
    with assms show ?thesis by (auto simp: exportToCSV_cases accepted_def)
  next
    case None
    obtain res st1 where w: "writer_Write S ?st0 (FieldNames d) = (res, st1)"
      by (cases "writer_Write S ?st0 (FieldNames d)")
    show ?thesis
    proof (cases res)
      case (Some err)
      with None w assms have "st = writer_Flush S st1" by (simp add: exportToCSV_cases)
      with writer_Write_Some [of S ?st0 "FieldNames d" err st1] w Some writer_Flush_keeps [of S st1]
      show ?thesis by (simp add: accepted_def)
    next
      case None2: None
      let ?run = "run_indices S L d silent (NumRecords d) (indices_from 0 (NumRecords d)) st1"
      obtain r2 st2 where run: "?run = (r2, st2)" by (cases ?run)
      with None None2 w assms have st: "st = writer_Flush S st2"
        by (simp add: exportToCSV_cases)
      from w None2 have hdr: "accepted st1 = [FieldNames d]" "processedRecords st1 = 0"
        using header_accepted [of S _ "FieldNames d" st1] by simp_all
      from run_indices_accepted [OF run] hdr obtain rows where
        rows: "accepted st2 = FieldNames d # rows" "length rows \<le> unat (NumRecords d)"
          "processedRecords st2 = of_nat (length rows)"
        by (auto simp: indices_from_length)
      from rows(2) have "unat (of_nat (length rows) :: 32 word) = length rows"
        by (rule le_unat_uoi)
      with rows st writer_Flush_keeps [of S st2] show ?thesis by simp
    qed
  qed
qed

lemma exportToCSV_nil_rows:
  assumes "exportToCSV S L d f silent = (ReturnNil, st)"
  shows "accepted st =
           FieldNames d # map (row_at L d) (filter (live d) (indices_from 0 (NumRecords d)))"
proof -
  let ?st0 = "\<lparr>file_rows = [], buffered = [], werr = None,
               console = (if \<not> silent then [Exporting f] else []), processedRecords = 0\<rparr>"
  obtain res st1 where w: "writer_Write S ?st0 (FieldNames d) = (res, st1)"
    by (cases "writer_Write S ?st0 (FieldNames d)")
  let ?run = "run_indices S L d silent (NumRecords d) (indices_from 0 (NumRecords d)) st1"
  obtain r2 st2 where run: "?run = (r2, st2)" by (cases ?run)
  from assms w run have "res = None" and "r2 = ReturnNil" and st: "st = writer_Flush S st2"
    by (auto simp: exportToCSV_cases split: option.splits)
  with w have "accepted st1 = [FieldNames d]"
    using header_accepted [of S _ "FieldNames d" st1] by simp
  with run_indices_nil [of S L d silent "NumRecords d" _ st1 st2] run \<open>r2 = ReturnNil\<close>
  have "accepted st2 =
      FieldNames d # map (row_at L d) (filter (live d) (indices_from 0 (NumRecords d)))"
    by simp
  with st writer_Flush_keeps [of S st2] show ?thesis by simp
qed

lemma exportToCSV_flushed:
  assumes "exportToCSV S L d f silent = (r, st)" and "werr st = None"
  shows "buffered st = []"
proof -
  let ?st0 = "\<lparr>file_rows = [], buffered = [], werr = None,
               console = (if \<not> silent then [Exporting f] else []), processedRecords = 0\<rparr>"
  show ?thesis
  proof (cases "Create S f")
    case (Some err)
    with assms show ?thesis by (auto simp: exportToCSV_cases)
  next
    case None
    with assms(1) obtain st2 where "st = writer_Flush S st2"
      by (auto simp: exportToCSV_cases split: option.splits prod.splits)
    with assms(2) writer_Flush_empties [of S st2] show ?thesis by simp
  qed
qed

subsection \<open>The concrete table, evaluated\<close>

lemma FormatFloat_f_Float:
  "FormatFloat_f (Float neg m e) prec =
     (if neg then ''-'' else '''') @ digits10 (fixed_units m e prec div 10 ^ prec) @
     (if 0 < prec then CHR ''.'' # pad0 prec (digits10 (fixed_units m e prec mod 10 ^ prec))
      else [])"
  by (simp add: FormatFloat_f_def Let_def)

lemma example_units:
  "fixed_units 6949617174986097 (- 49) 2 = 1235"
  "fixed_units 5 (- 1) 2 = 250"
  by (simp_all add: fixed_units_def round_half_even_def Let_def)

lemma example_prices:
  "FormatFloat_f (Float False 6949617174986097 (- 49)) 2 = ''12.35''"
  "FormatFloat_f (Float False 5 (- 1)) 2 = ''2.50''"
  by (simp_all add: FormatFloat_f_Float example_units digits10.simps digit_def pad0_def)

lemma example_names:
  "TrimSpace '' Hello '' = ''Hello''"
  "TrimSpace ''World'' = ''World''"
  by (simp_all add: TrimSpace_def)

lemma example_rows:
  "build_row example_lib example_fields 0 (FieldSlice example_hello) = Some [''Hello'', ''12.35'']"
  "build_row example_lib example_fields 0 (FieldSlice example_world) = Some [''World'', ''2.50'']"
  by (simp_all add: example_lib_def example_fields_def example_hello_def example_world_def
        formatValueForCSV_def example_prices example_names)

lemma example_flags:
  "Deleted example_deleted" "\<not> Deleted example_hello" "\<not> Deleted example_world"
  by (simp_all add: example_deleted_def example_hello_def example_world_def)

lemma example_table:
  "NumRecords example_dbf = 4"
  "FieldNames example_dbf = [''NAME'', ''PRICE'']"
  "NumFields example_dbf = 2"
  "Fields example_dbf = example_fields"
  "RecordAt example_dbf 0 = Inr example_deleted"
  "RecordAt example_dbf 1 = Inl ''corrupt''"
  "RecordAt example_dbf 2 = Inr example_hello"
  "RecordAt example_dbf 3 = Inr example_world"
  by (simp_all add: example_dbf_def)

lemma example_lengths:
  "length (FieldSlice example_hello) = 2" "length (FieldSlice example_world) = 2"
  "length (FieldSlice example_deleted) = 2" "length example_fields = 2"
  by (simp_all add: example_hello_def example_world_def example_deleted_def example_fields_def)

lemma example_indices: "indices_from 0 4 = [0, 1, 2, 3]" "indices_from 0 3 = [0, 1, 2]"
  by (simp_all add: indices_from_def upt_rec)

lemma example_live:
  "\<not> live example_dbf 0" "\<not> live example_dbf 1" "live example_dbf 2" "live example_dbf 3"
  "deleted_at example_dbf 0" "\<not> deleted_at example_dbf 1" "\<not> deleted_at example_dbf 2"
  "\<not> deleted_at example_dbf 3"
  by (simp_all add: live_def deleted_at_def example_table example_flags)

lemma example_row_at:
  "row_at example_lib example_dbf 2 = [''Hello'', ''12.35'']"
  "row_at example_lib example_dbf 3 = [''World'', ''2.50'']"
  by (simp_all add: row_at_def example_table example_rows)

lemma example_writer:
  "Create (example_sys cap limit) path = None"
  "Overflows (example_sys cap limit) in_file in_buffer row = (cap \<le> length in_buffer)"
  "FileWrite (example_sys cap None) in_file rows = None"
  "FileWrite (example_sys cap (Some n)) in_file rows =
     (if n < length in_file + length rows then Some (''no space'', n - length in_file) else None)"
  by (simp_all add: example_sys_def)

lemma example_export:
  "exportToCSV (example_sys 8 None) example_lib example_dbf ''t.csv'' False =
     (ReturnNil,
      \<lparr>file_rows = [[''NAME'', ''PRICE''], [''Hello'', ''12.35''], [''World'', ''2.50'']],
       buffered = [], werr = None,
       console = [Exporting ''t.csv'', ReadError 1 ''corrupt''], processedRecords = 2\<rparr>)"
  by (simp add: exportToCSV_def export_loop.simps export_body_def writer_Write_def
        writer_Flush_def example_table example_writer example_rows example_flags)

lemma example_export_full_device:
  "exportToCSV (example_sys 8 (Some 0)) example_lib example_dbf ''t.csv'' False =
     (ReturnNil,
      \<lparr>file_rows = [],
       buffered = [[''NAME'', ''PRICE''], [''Hello'', ''12.35''], [''World'', ''2.50'']],
       werr = Some ''no space'',
       console = [Exporting ''t.csv'', ReadError 1 ''corrupt''], processedRecords = 2\<rparr>)"
  by (simp add: exportToCSV_def export_loop.simps export_body_def writer_Write_def
        writer_Flush_def example_table example_writer example_rows example_flags)

lemma example_export_small_buffer:
  "exportToCSV (example_sys 2 (Some 0)) example_lib example_dbf ''t.csv'' False =
     (ReturnErr (RowFailed 3 ''no space''),
      \<lparr>file_rows = [], buffered = [[''NAME'', ''PRICE''], [''Hello'', ''12.35'']],
       werr = Some ''no space'',
       console = [Exporting ''t.csv'', ReadError 1 ''corrupt''], processedRecords = 1\<rparr>)"
  by (simp add: exportToCSV_def export_loop.simps export_body_def writer_Write_def
        writer_Flush_def example_table example_writer example_rows example_flags)

lemma example_parse_csv:
  "parse_args (example_sys cap limit) [''dbfreader'', ''t.dbf'', ''--csv''] =
     \<lparr>dbfFile = ''t.dbf'', encoding = ''big5'', csvOutput = ''t.csv'', noDisplay = False\<rparr>"
  by (simp add: parse_args_def parse_loop.simps parse_arg_def HasPrefix_def TrimSuffix_def
        HasSuffix_def Ext_def example_sys_def)

lemma example_open:
  "OpenFile (example_sys cap limit) ''t.dbf'' dec = Inr example_dbf"
  by (simp add: example_sys_def)

lemma example_main_csv:
  "main (example_sys 8 None) example_lib [''dbfreader'', ''t.dbf'', ''--csv''] =
     \<lparr>stdout = [Opening ''t.dbf'' ''big5'', WillExport ''t.csv'', TotalRecords 4,
               NumberOfFields 2, FieldNamesLine [''NAME'', ''PRICE''], Exporting ''t.csv'',
               ReadError 1 ''corrupt'', Exported 4 ''t.csv''],
      opened = Some (''t.dbf'', Big5Decoder),
      exported = Some (ReturnNil,
        \<lparr>file_rows = [[''NAME'', ''PRICE''], [''Hello'', ''12.35''], [''World'', ''2.50'']],
         buffered = [], werr = None,
         console = [Exporting ''t.csv'', ReadError 1 ''corrupt''], processedRecords = 2\<rparr>),
      ending = DisplayPhase\<rparr>"
  by (simp add: main_def example_parse_csv select_decoder_def example_open example_export
        example_table Let_def)

lemma example_main_full_device:
  "main (example_sys 8 (Some 0)) example_lib [''dbfreader'', ''t.dbf'', ''--csv''] =
     \<lparr>stdout = [Opening ''t.dbf'' ''big5'', WillExport ''t.csv'', TotalRecords 4,
               NumberOfFields 2, FieldNamesLine [''NAME'', ''PRICE''], Exporting ''t.csv'',
               ReadError 1 ''corrupt'', Exported 4 ''t.csv''],
      opened = Some (''t.dbf'', Big5Decoder),
      exported = Some (ReturnNil,
        \<lparr>file_rows = [],
         buffered = [[''NAME'', ''PRICE''], [''Hello'', ''12.35''], [''World'', ''2.50'']],
         werr = Some ''no space'',
         console = [Exporting ''t.csv'', ReadError 1 ''corrupt''], processedRecords = 2\<rparr>),
      ending = DisplayPhase\<rparr>"
  by (simp add: main_def example_parse_csv select_decoder_def example_open
        example_export_full_device example_table Let_def)

lemma example_below_4:
  "i < NumRecords example_dbf \<Longrightarrow> i = 0 \<or> i = 1 \<or> i = 2 \<or> i = 3"
proof -
  assume "i < NumRecords example_dbf"
  then have "i \<in> set (indices_from 0 4)" by (simp add: indices_from_set example_table)
  then show ?thesis by (simp add: example_indices)
qed

section \<open>The claims about the export\<close>

text \<open>
  C3. A record whose deletion flag is set: the pass through the loop body leaves the
  file, the buffer, the console and the counter as they were (no row, no error report, no
  increment), and the loop goes on with the next index.
\<close>

theorem deleted_record_skipped:
  assumes "RecordAt d i = Inr rc" and "Deleted rc"
  shows "export_body S L d silent n i st = Continue st \<and>
         (i < n \<longrightarrow> export_loop S L d silent n i st = export_loop S L d silent n (i + 1) st)"
proof -
  from assms have body: "export_body S L d silent n i st = Continue st"
    by (simp add: export_body_def)
  then have "i < n \<Longrightarrow> export_loop S L d silent n i st = export_loop S L d silent n (i + 1) st"
    by (subst export_loop.simps) simp
  with body show ?thesis by blast
qed

theorem deleted_record_skipped_witness:
  "RecordAt example_dbf 0 = Inr example_deleted \<and> Deleted example_deleted \<and>
   export_body (example_sys 8 None) example_lib example_dbf False 4 0 example_started =
     Continue example_started \<and>
   export_loop (example_sys 8 None) example_lib example_dbf False 4 0 example_started =
     export_loop (example_sys 8 None) example_lib example_dbf False 4 (0 + 1) example_started"
  using deleted_record_skipped [of example_dbf 0 example_deleted "example_sys 8 None" example_lib
      False 4 example_started]
  by (simp add: example_table example_flags)

text \<open>
  C6. When a fetched record has as many values as the table has field headers, the row
  is built without a panic: every position \<open>j\<close> of the row is the formatted value \<open>j\<close>
  under header \<open>j\<close>, and the pass through the loop body does not panic.
\<close>

theorem row_construction_total:
  assumes "RecordAt d i = Inr rc" and "length (FieldSlice rc) = length (Fields d)"
  shows "\<exists>row. build_row L (Fields d) 0 (FieldSlice rc) = Some row \<and>
           length row = length (FieldSlice rc) \<and>
           (\<forall>j < length (FieldSlice rc).
              row ! j = formatValueForCSV L (FieldSlice rc ! j) (Fields d ! j)) \<and>
           (\<forall>st1. export_body S L d silent n i st \<noteq> Stop Panicked st1)"
proof -
  let ?row = "map2 (formatValueForCSV L) (FieldSlice rc) (Fields d)"
  from assms(2) have "0 + length (FieldSlice rc) \<le> length (Fields d)" by simp
  from build_row_zip [OF this] have built: "build_row L (Fields d) 0 (FieldSlice rc) = Some ?row"
    by simp
  moreover from assms(2) have "length ?row = length (FieldSlice rc)" by simp
  moreover from assms(2)
  have "\<forall>j < length (FieldSlice rc). ?row ! j = formatValueForCSV L (FieldSlice rc ! j) (Fields d ! j)"
    by simp
  moreover from assms(1) built
  have "\<forall>st1. export_body S L d silent n i st \<noteq> Stop Panicked st1"
    by (auto simp: export_body_def Let_def split: option.splits prod.splits)
  ultimately show ?thesis by blast
qed

theorem row_construction_total_witness:
  "RecordAt example_dbf 2 = Inr example_hello \<and>
   length (FieldSlice example_hello) = length (Fields example_dbf) \<and>
   build_row example_lib (Fields example_dbf) 0 (FieldSlice example_hello) =
     Some [''Hello'', ''12.35'']"
  using row_construction_total [of example_dbf 2 example_hello example_lib "example_sys 8 None"
      False 4 example_started]
  by (simp add: example_table example_rows example_lengths)

text \<open>
  C5. A write to the file can fail without \<^verbatim>\<open>writer.Write\<close> failing: rows go to the
  buffer, and the buffer is written by the deferred \<^verbatim>\<open>writer.Flush()\<close>, whose failure
  exportToCSV never reads. On a full device, with a buffer that holds the whole export,
  the header and both rows are accepted, nothing reaches the file, exportToCSV returns
  nil, and main reports four exported records. With a buffer of two rows the third write
  fails and is returned, and the header and the row accepted before it are not in the
  file either.
\<close>

theorem flush_error_is_dropped:
  "exportToCSV (example_sys 8 (Some 0)) example_lib example_dbf ''t.csv'' False =
     (ReturnNil,
      \<lparr>file_rows = [],
       buffered = [[''NAME'', ''PRICE''], [''Hello'', ''12.35''], [''World'', ''2.50'']],
       werr = Some ''no space'',
       console = [Exporting ''t.csv'', ReadError 1 ''corrupt''], processedRecords = 2\<rparr>) \<and>
   ending (main (example_sys 8 (Some 0)) example_lib [''dbfreader'', ''t.dbf'', ''--csv'']) =
     DisplayPhase \<and>
   last (stdout (main (example_sys 8 (Some 0)) example_lib [''dbfreader'', ''t.dbf'', ''--csv''])) =
     Exported 4 ''t.csv'' \<and>
   exportToCSV (example_sys 2 (Some 0)) example_lib example_dbf ''t.csv'' False =
     (ReturnErr (RowFailed 3 ''no space''),
      \<lparr>file_rows = [], buffered = [[''NAME'', ''PRICE''], [''Hello'', ''12.35'']],
       werr = Some ''no space'',
       console = [Exporting ''t.csv'', ReadError 1 ''corrupt''], processedRecords = 1\<rparr>)"
  by (simp add: example_export_full_device example_main_full_device example_export_small_buffer)

text \<open>
  C2. exportToCSV returns an error or nil and nothing else: no count reaches the caller.
  On the example table, two rows are written (the counter ends at 2) and main reports four
  exported records, the record count of the table.
\<close>

theorem reported_count_counterexample:
  "last (stdout (main (example_sys 8 None) example_lib [''dbfreader'', ''t.dbf'', ''--csv''])) =
     Exported 4 ''t.csv'' \<and>
   exported (main (example_sys 8 None) example_lib [''dbfreader'', ''t.dbf'', ''--csv'']) =
     Some (ReturnNil,
       \<lparr>file_rows = [[''NAME'', ''PRICE''], [''Hello'', ''12.35''], [''World'', ''2.50'']],
        buffered = [], werr = None,
        console = [Exporting ''t.csv'', ReadError 1 ''corrupt''], processedRecords = 2\<rparr>)"
  by (simp add: example_main_csv)

text \<open>
  C2, amended. Whatever exportToCSV returns, its counter \<^verbatim>\<open>processedRecords\<close> equals the
  number of data rows that \<^verbatim>\<open>writer.Write\<close> accepted: the rows after the header among
  those in the file or still in the buffer. When it returns nil, these are the rows of the
  live records, in index order: deleted records and records whose fetch failed are not
  among them. The accepted rows are all in the file when the writer holds no error at the
  return; the counter says nothing about the file otherwise.
\<close>

theorem counter_counts_rows_accepted:
  assumes "exportToCSV S L d f silent = (r, st)"
  shows "unat (processedRecords st) = length (tl (file_rows st @ buffered st)) \<and>
         (r = ReturnNil \<longrightarrow>
            tl (file_rows st @ buffered st) =
              map (row_at L d) (filter (live d) (indices_from 0 (NumRecords d)))) \<and>
         (werr st = None \<longrightarrow> buffered st = [])"
proof -
  from exportToCSV_counter [OF assms]
  have "unat (processedRecords st) = length (tl (file_rows st @ buffered st))"
    by (simp add: accepted_def)
  moreover have "tl (file_rows st @ buffered st) =
      map (row_at L d) (filter (live d) (indices_from 0 (NumRecords d)))" if "r = ReturnNil"
    using that assms exportToCSV_nil_rows [of S L d f silent st] by (simp add: accepted_def)
  moreover have "buffered st = []" if "werr st = None"
    using that assms by (rule exportToCSV_flushed [rotated])
  ultimately show ?thesis by blast
qed

theorem counter_counts_rows_accepted_witness:
  "exportToCSV (example_sys 8 (Some 0)) example_lib example_dbf ''t.csv'' False =
     (ReturnNil,
      \<lparr>file_rows = [],
       buffered = [[''NAME'', ''PRICE''], [''Hello'', ''12.35''], [''World'', ''2.50'']],
       werr = Some ''no space'',
       console = [Exporting ''t.csv'', ReadError 1 ''corrupt''], processedRecords = 2\<rparr>) \<and>
   unat (2 :: 32 word) = length [[''Hello'', ''12.35''], [''World'', ''2.50'']] \<and>
   [[''Hello'', ''12.35''], [''World'', ''2.50'']] =
     map (row_at example_lib example_dbf)
       (filter (live example_dbf) (indices_from 0 (NumRecords example_dbf))) \<and>
   exportToCSV (example_sys 8 None) example_lib example_dbf ''t.csv'' False =
     (ReturnNil,
      \<lparr>file_rows = [[''NAME'', ''PRICE''], [''Hello'', ''12.35''], [''World'', ''2.50'']],
       buffered = [], werr = None,
       console = [Exporting ''t.csv'', ReadError 1 ''corrupt''], processedRecords = 2\<rparr>)"
proof -
  note full = counter_counts_rows_accepted [OF example_export_full_device]
  note good = counter_counts_rows_accepted [OF example_export]
  from full good show ?thesis
    by (simp add: example_export_full_device example_export example_table)
qed

text \<open>
  C4. One fetch fails, at index \<open>k\<close>; every other record below the record count is
  fetched and has as many values as the table has field headers; the file is created and
  no write to it fails. Then exportToCSV returns nil, and after the deferred flush the
  file holds the header and the rows of the live records, in index order, with nothing
  left in the buffer and no error in the writer; \<open>k\<close> is not among the live records, yet
  the records after \<open>k\<close> are exported; and the data rows, the deleted records and the one
  failed record add up to the record count.
\<close>

theorem one_failed_fetch_tolerated:
  assumes "Create S f = None" and "\<forall>in_file rows. FileWrite S in_file rows = None"
    and "k < NumRecords d" and "RecordAt d k = Inl err"
    and "\<forall>i. i < NumRecords d \<and> i \<noteq> k \<longrightarrow>
           (\<exists>rc. RecordAt d i = Inr rc \<and> length (FieldSlice rc) = length (Fields d))"
  shows "\<exists>st. exportToCSV S L d f silent = (ReturnNil, st) \<and>
           file_rows st =
             FieldNames d # map (row_at L d) (filter (live d) (indices_from 0 (NumRecords d))) \<and>
           buffered st = [] \<and> werr st = None \<and>
           k \<notin> set (filter (live d) (indices_from 0 (NumRecords d))) \<and>
           length (tl (file_rows st)) +
             length (filter (deleted_at d) (indices_from 0 (NumRecords d))) + 1 =
             unat (NumRecords d) \<and>
           unat (processedRecords st) = length (tl (file_rows st))"
proof -
  let ?is = "indices_from 0 (NumRecords d)"
  let ?st0 = "\<lparr>file_rows = [], buffered = [], werr = None,
               console = (if \<not> silent then [Exporting f] else []), processedRecords = 0\<rparr>"
  from assms(2) have reliable: "\<And>in_file rows. FileWrite S in_file rows = None" by simp
  have fit: "fits d i" if "i \<in> set ?is" for i
  proof (cases "i = k")
    case True
    with assms(4) show ?thesis by (simp add: fits_def)
  next
    case False
    from that have "i < NumRecords d" by (simp add: indices_from_set)
    with False assms(5) show ?thesis by (auto simp: fits_def)
  qed
  have "werr ?st0 = None" by simp
  from writer_Write_reliable [OF reliable this] obtain st1 where
    hdr: "writer_Write S ?st0 (FieldNames d) = (None, st1)" by blast
  from writer_Write_None [OF hdr] have clean1: "werr st1 = None" by simp
  let ?run = "run_indices S L d silent (NumRecords d) ?is st1"
  obtain r2 st2 where run: "?run = (r2, st2)" by (cases ?run)
  have "fst ?run = ReturnNil" using fit reliable clean1 by (rule run_indices_returns_nil)
  with run have r2: "r2 = ReturnNil" by simp
  with run run_indices_nil [of S L d silent "NumRecords d" ?is st1 st2] clean1
  have clean2: "werr st2 = None" by simp
  let ?st = "writer_Flush S st2"
  from assms(1) hdr run r2 have nil: "exportToCSV S L d f silent = (ReturnNil, ?st)"
    by (simp add: exportToCSV_cases)
  from writer_Flush_reliable [OF reliable clean2]
  have flushed: "file_rows ?st = accepted st2" "buffered ?st = []" "werr ?st = None"
    by simp_all
  from exportToCSV_nil_rows [OF nil] flushed
  have rows: "file_rows ?st = FieldNames d # map (row_at L d) (filter (live d) ?is)"
    by (simp add: accepted_def)
  have k_dead: "\<not> live d k" "\<not> deleted_at d k"
    using assms(4) by (simp_all add: live_def deleted_at_def)
  have "\<forall>i \<in> set ?is. i \<noteq> k \<longrightarrow> live d i \<noteq> deleted_at d i"
  proof (intro ballI impI)
    fix i assume "i \<in> set ?is" and "i \<noteq> k"
    with assms(5) obtain rc where "RecordAt d i = Inr rc" by (auto simp: indices_from_set)
    then show "live d i \<noteq> deleted_at d i" by (simp add: live_def deleted_at_def)
  qed
  moreover from assms(3) have "k \<in> set ?is" by (simp add: indices_from_set)
  ultimately have "length (filter (live d) ?is) + length (filter (deleted_at d) ?is) + 1 = length ?is"
    using k_dead by (intro length_filter_but_one indices_from_distinct)
  with rows have count: "length (tl (file_rows ?st)) + length (filter (deleted_at d) ?is) + 1 =
      unat (NumRecords d)"
    by (simp add: indices_from_length)
  from exportToCSV_counter [OF nil] flushed
  have counter: "unat (processedRecords ?st) = length (tl (file_rows ?st))"
    by (simp add: accepted_def)
  from k_dead have "k \<notin> set (filter (live d) ?is)" by simp
  with nil rows flushed(2,3) count counter show ?thesis by blast
qed

theorem one_failed_fetch_tolerated_witness:
  "Create (example_sys 8 None) ''t.csv'' = None \<and>
   (\<forall>in_file rows. FileWrite (example_sys 8 None) in_file rows = None) \<and>
   (1 :: 32 word) < NumRecords example_dbf \<and> RecordAt example_dbf 1 = Inl ''corrupt'' \<and>
   RecordAt example_dbf 0 = Inr example_deleted \<and>
   length (FieldSlice example_deleted) = length (Fields example_dbf) \<and>
   RecordAt example_dbf 2 = Inr example_hello \<and>
   length (FieldSlice example_hello) = length (Fields example_dbf) \<and>
   RecordAt example_dbf 3 = Inr example_world \<and>
   length (FieldSlice example_world) = length (Fields example_dbf) \<and>
   (\<exists>st. exportToCSV (example_sys 8 None) example_lib example_dbf ''t.csv'' False =
           (ReturnNil, st) \<and>
         file_rows st = [[''NAME'', ''PRICE''], [''Hello'', ''12.35''], [''World'', ''2.50'']] \<and>
         buffered st = [] \<and> werr st = None \<and> unat (processedRecords st) = 2) \<and>
   length (filter (deleted_at example_dbf) (indices_from 0 (NumRecords example_dbf))) = 1"
proof -
  have created: "Create (example_sys 8 None) ''t.csv'' = None"
    by (simp add: example_writer)
  have reliable: "\<forall>in_file rows. FileWrite (example_sys 8 None) in_file rows = None"
    by (simp add: example_writer)
  have below: "(1 :: 32 word) < NumRecords example_dbf"
    by (simp add: example_table)
  have failing: "RecordAt example_dbf 1 = Inl ''corrupt''"
    by (simp add: example_table)
  have others: "\<forall>i. i < NumRecords example_dbf \<and> i \<noteq> 1 \<longrightarrow>
      (\<exists>rc. RecordAt example_dbf i = Inr rc \<and>
            length (FieldSlice rc) = length (Fields example_dbf))"
  proof (intro allI impI)
    fix i :: "32 word"
    assume "i < NumRecords example_dbf \<and> i \<noteq> 1"
    with example_below_4 [of i] have "i = 0 \<or> i = 2 \<or> i = 3" by blast
    then show "\<exists>rc. RecordAt example_dbf i = Inr rc \<and>
        length (FieldSlice rc) = length (Fields example_dbf)"
      by (auto simp: example_table example_lengths)
  qed
  from one_failed_fetch_tolerated [OF created reliable below failing others,
      of example_lib False]
  obtain st where
    "exportToCSV (example_sys 8 None) example_lib example_dbf ''t.csv'' False = (ReturnNil, st)"
    and "file_rows st =
      FieldNames example_dbf #
        map (row_at example_lib example_dbf)
          (filter (live example_dbf) (indices_from 0 (NumRecords example_dbf)))"
    and "buffered st = []" and "werr st = None"
    and "unat (processedRecords st) = length (tl (file_rows st))"
    by blast
  then have "\<exists>st. exportToCSV (example_sys 8 None) example_lib example_dbf ''t.csv'' False =
        (ReturnNil, st) \<and>
      file_rows st = [[''NAME'', ''PRICE''], [''Hello'', ''12.35''], [''World'', ''2.50'']] \<and>
      buffered st = [] \<and> werr st = None \<and> unat (processedRecords st) = 2"
    by (simp add: example_table example_indices example_live example_row_at)
  with created reliable below failing show ?thesis
    by (simp add: example_table example_lengths example_indices example_live)
qed

section \<open>Properties of the formatter\<close>

lemma is_digit_digit: "is_digit (digit d)"
proof -
  have "d mod 10 < length ''0123456789''" by simp
  then have "''0123456789'' ! (d mod 10) \<in> set ''0123456789''" by (rule nth_mem)
  then show ?thesis by (simp only: is_digit_def digit_def)
qed

lemma digits10_digits: "list_all is_digit (digits10 n)"
proof (induction n rule: digits10.induct)
  case (1 n)
  then show ?case
    by (subst digits10.simps) (simp add: is_digit_digit)
qed

lemma digits10_nonempty: "digits10 n \<noteq> []"
  by (subst digits10.simps) simp

lemma length_digits10: "0 < k \<Longrightarrow> n < 10 ^ k \<Longrightarrow> length (digits10 n) \<le> k"
proof (induction k arbitrary: n)
  case 0
  then show ?case by simp
next
  case (Suc k)
  show ?case
  proof (cases "n < 10")
    case True
    then show ?thesis by (subst digits10.simps) simp
  next
    case False
    with Suc.prems have "0 < k" by (cases k) auto
    moreover from Suc.prems have "n div 10 < 10 ^ k" by (simp add: less_mult_imp_div_less mult.commute)
    ultimately have "length (digits10 (n div 10)) \<le> k" by (rule Suc.IH)
    with False show ?thesis by (subst digits10.simps) simp
  qed
qed

lemma pad0_length: "length s \<le> w \<Longrightarrow> length (pad0 w s) = w"
  by (simp add: pad0_def)

lemma is_digit_zero: "is_digit CHR ''0''"
  by (simp add: is_digit_def)

lemma pad0_digits: "list_all is_digit s \<Longrightarrow> list_all is_digit (pad0 w s)"
  by (auto simp: pad0_def list_all_iff is_digit_zero)

lemma fraction_digits:
  assumes "0 < prec"
  shows "length (pad0 prec (digits10 (n mod 10 ^ prec))) = prec \<and>
         list_all is_digit (pad0 prec (digits10 (n mod 10 ^ prec)))"
proof -
  have "n mod 10 ^ prec < 10 ^ prec" by simp
  with assms have "length (digits10 (n mod 10 ^ prec)) \<le> prec" by (rule length_digits10)
  then show ?thesis by (simp add: pad0_length pad0_digits digits10_digits)
qed

lemma year4_shape: "0 \<le> y \<Longrightarrow> y \<le> 9999 \<Longrightarrow> length (year4 y) = 4 \<and> list_all is_digit (year4 y)"
proof -
  assume "0 \<le> y" and "y \<le> 9999"
  then have "nat \<bar>y\<bar> < 10 ^ 4" by simp
  then have "length (digits10 (nat \<bar>y\<bar>)) \<le> 4" by (intro length_digits10) simp_all
  with \<open>0 \<le> y\<close> show ?thesis
    by (simp add: year4_def pad0_length pad0_digits digits10_digits)
qed

lemma two_shape: "n < 100 \<Longrightarrow> length (two n) = 2 \<and> list_all is_digit (two n)"
proof -
  assume "n < 100"
  then have "n < 10 ^ 2" by simp
  then have "length (digits10 n) \<le> 2" by (intro length_digits10) simp_all
  then show ?thesis by (simp add: two_def pad0_length pad0_digits digits10_digits)
qed

section \<open>The claims about the formatter\<close>

text \<open>
  C7. Under a numeric field of scale 2, a nil value is formatted as the empty string (the
  nil test comes before the switch on the type tag), and a float64 that is not a number is
  formatted as \<^verbatim>\<open>NaN\<close>: neither string has two digits after a decimal point.
\<close>

theorem numeric_scale_counterexample:
  "formatValueForCSV example_lib None
      \<lparr>FieldName = ''PRICE'', FieldType = ''N'', Len = 8, Decimals = 2\<rparr> = [] \<and>
   formatValueForCSV example_lib (Some (GFloat64 NaN))
      \<lparr>FieldName = ''PRICE'', FieldType = ''N'', Len = 8, Decimals = 2\<rparr> = ''NaN''"
  by (simp add: formatValueForCSV_def example_lib_def FormatFloat_f_def)

text \<open>
  C7, amended. For a numeric field of scale \<open>s > 0\<close> and a value that is not nil and
  converts to a finite float64, the export string is that float formatted with precision
  \<open>s\<close>, the declared scale: an optional minus sign, at least one digit, a decimal point,
  and exactly \<open>s\<close> digits.
\<close>

theorem numeric_scale_digits:
  assumes "FieldType field = ''N''" and "0 < Decimals field"
    and "ToFloat64 L (Some x) = Float neg m e"
  shows "formatValueForCSV L (Some x) field =
           FormatFloat_f (ToFloat64 L (Some x)) (Decimals field) \<and>
         (\<exists>ip fp. formatValueForCSV L (Some x) field =
                    (if neg then ''-'' else '''') @ ip @ ''.'' @ fp \<and>
                  ip \<noteq> [] \<and> list_all is_digit ip \<and>
                  length fp = Decimals field \<and> list_all is_digit fp)"
proof -
  let ?s = "Decimals field"
  let ?n = "fixed_units m e ?s"
  let ?ip = "digits10 (?n div 10 ^ ?s)"
  let ?fp = "pad0 ?s (digits10 (?n mod 10 ^ ?s))"
  from assms(1,2) have eq: "formatValueForCSV L (Some x) field =
      FormatFloat_f (ToFloat64 L (Some x)) ?s"
    by (simp add: formatValueForCSV_def)
  with assms(2,3) have "formatValueForCSV L (Some x) field =
      (if neg then ''-'' else '''') @ ?ip @ ''.'' @ ?fp"
    by (simp add: FormatFloat_f_Float)
  moreover have "?ip \<noteq> []" and "list_all is_digit ?ip"
    by (simp_all add: digits10_nonempty digits10_digits)
  moreover from fraction_digits [OF assms(2)]
  have "length ?fp = ?s" and "list_all is_digit ?fp" by simp_all
  ultimately show ?thesis using eq by blast
qed

theorem numeric_scale_digits_witness:
  "FieldType \<lparr>FieldName = ''PRICE'', FieldType = ''N'', Len = 8, Decimals = 2\<rparr> = ''N'' \<and>
   0 < Decimals \<lparr>FieldName = ''PRICE'', FieldType = ''N'', Len = 8, Decimals = 2\<rparr> \<and>
   ToFloat64 example_lib (Some (GFloat64 (Float False 6949617174986097 (- 49)))) =
     Float False 6949617174986097 (- 49) \<and>
   formatValueForCSV example_lib (Some (GFloat64 (Float False 6949617174986097 (- 49))))
       \<lparr>FieldName = ''PRICE'', FieldType = ''N'', Len = 8, Decimals = 2\<rparr> = ''12.35''"
  using numeric_scale_digits [of "\<lparr>FieldName = ''PRICE'', FieldType = ''N'', Len = 8, Decimals = 2\<rparr>"
      example_lib "GFloat64 (Float False 6949617174986097 (- 49))" False 6949617174986097 "- 49"]
  by (simp add: formatValueForCSV_def example_lib_def example_prices)

text \<open>
  C8. A date field (tag D) or date-time field (tag T): a nil value, or a value whose time
  is the zero time, is exported as the empty string. Any other value is exported as
  year, month and day joined by hyphens, the year zero-padded to four digits and month
  and day to two; a date-time field adds a space and hour, minute and second, each
  zero-padded to two digits and joined by colons. With a year from 0 to 9999 and the other
  fields below 100, these strings have 10 and 19 characters.
\<close>

theorem date_export_format:
  "(FieldType field = ''D'' \<longrightarrow>
      formatValueForCSV L v field =
        (if v = None \<or> IsZero L (ToTime L v) then []
         else year4 (Year L (ToTime L v)) @ ''-'' @ two (Month L (ToTime L v)) @ ''-'' @
              two (Day L (ToTime L v)))) \<and>
   (FieldType field = ''T'' \<longrightarrow>
      formatValueForCSV L v field =
        (if v = None \<or> IsZero L (ToTime L v) then []
         else year4 (Year L (ToTime L v)) @ ''-'' @ two (Month L (ToTime L v)) @ ''-'' @
              two (Day L (ToTime L v)) @ '' '' @ two (Hour L (ToTime L v)) @ '':'' @
              two (Minute L (ToTime L v)) @ '':'' @ two (Second L (ToTime L v)))) \<and>
   (0 \<le> Year L t \<and> Year L t \<le> 9999 \<and> Month L t < 100 \<and> Day L t < 100 \<and> Hour L t < 100 \<and>
    Minute L t < 100 \<and> Second L t < 100 \<longrightarrow>
      length (Format_date L t) = 10 \<and> length (Format_datetime L t) = 19)"
proof -
  have d: "formatValueForCSV L v field =
        (if v = None \<or> IsZero L (ToTime L v) then []
         else year4 (Year L (ToTime L v)) @ ''-'' @ two (Month L (ToTime L v)) @ ''-'' @
              two (Day L (ToTime L v)))"
    if "FieldType field = ''D''"
    using that by (cases v) (simp_all add: formatValueForCSV_def Format_date_def Let_def)
  have t: "formatValueForCSV L v field =
        (if v = None \<or> IsZero L (ToTime L v) then []
         else year4 (Year L (ToTime L v)) @ ''-'' @ two (Month L (ToTime L v)) @ ''-'' @
              two (Day L (ToTime L v)) @ '' '' @ two (Hour L (ToTime L v)) @ '':'' @
              two (Minute L (ToTime L v)) @ '':'' @ two (Second L (ToTime L v)))"
    if "FieldType field = ''T''"
    using that
    by (cases v) (simp_all add: formatValueForCSV_def Format_datetime_def Format_date_def Let_def)
  have len: "length (Format_date L t) = 10 \<and> length (Format_datetime L t) = 19"
    if "0 \<le> Year L t \<and> Year L t \<le> 9999 \<and> Month L t < 100 \<and> Day L t < 100 \<and>
        Hour L t < 100 \<and> Minute L t < 100 \<and> Second L t < 100"
    using that by (simp add: Format_datetime_def Format_date_def year4_shape two_shape)
  from d t len show ?thesis by blast
qed

lemma example_date_parts:
  "year4 2024 = ''2024''" "two 3 = ''03''" "two 9 = ''09''" "two 4 = ''04''" "two 5 = ''05''"
  "two 6 = ''06''"
  by (simp_all add: year4_def two_def pad0_def digits10.simps digit_def)

lemma example_time:
  "ToTime example_lib (Some (GTime t)) = t"
  "IsZero example_lib t = (t = Civil 1 1 1 0 0 0)"
  "Year example_lib (Civil y mo dy h mi s) = y"
  "Month example_lib (Civil y mo dy h mi s) = mo"
  "Day example_lib (Civil y mo dy h mi s) = dy"
  "Hour example_lib (Civil y mo dy h mi s) = h"
  "Minute example_lib (Civil y mo dy h mi s) = mi"
  "Second example_lib (Civil y mo dy h mi s) = s"
  by (simp_all add: example_lib_def)

theorem date_export_format_witness:
  "FieldType \<lparr>FieldName = ''BORN'', FieldType = ''D'', Len = 8, Decimals = 0\<rparr> = ''D'' \<and>
   formatValueForCSV example_lib (Some (GTime (Civil 2024 3 9 4 5 6)))
       \<lparr>FieldName = ''BORN'', FieldType = ''D'', Len = 8, Decimals = 0\<rparr> = ''2024-03-09'' \<and>
   formatValueForCSV example_lib (Some (GTime (Civil 1 1 1 0 0 0)))
       \<lparr>FieldName = ''BORN'', FieldType = ''D'', Len = 8, Decimals = 0\<rparr> = [] \<and>
   FieldType \<lparr>FieldName = ''SEEN'', FieldType = ''T'', Len = 8, Decimals = 0\<rparr> = ''T'' \<and>
   formatValueForCSV example_lib (Some (GTime (Civil 2024 3 9 4 5 6)))
       \<lparr>FieldName = ''SEEN'', FieldType = ''T'', Len = 8, Decimals = 0\<rparr> =
     ''2024-03-09 04:05:06'' \<and>
   formatValueForCSV example_lib None
       \<lparr>FieldName = ''SEEN'', FieldType = ''T'', Len = 8, Decimals = 0\<rparr> = [] \<and>
   0 \<le> Year example_lib (Civil 2024 3 9 4 5 6) \<and> Year example_lib (Civil 2024 3 9 4 5 6) \<le> 9999 \<and>
   Month example_lib (Civil 2024 3 9 4 5 6) < 100 \<and> Day example_lib (Civil 2024 3 9 4 5 6) < 100 \<and>
   Hour example_lib (Civil 2024 3 9 4 5 6) < 100 \<and> Minute example_lib (Civil 2024 3 9 4 5 6) < 100 \<and>
   Second example_lib (Civil 2024 3 9 4 5 6) < 100 \<and>
   length (Format_date example_lib (Civil 2024 3 9 4 5 6)) = 10 \<and>
   length (Format_datetime example_lib (Civil 2024 3 9 4 5 6)) = 19"
  using
    date_export_format [of "\<lparr>FieldName = ''BORN'', FieldType = ''D'', Len = 8, Decimals = 0\<rparr>"
      example_lib "Some (GTime (Civil 2024 3 9 4 5 6))" "Civil 2024 3 9 4 5 6"]
    date_export_format [of "\<lparr>FieldName = ''BORN'', FieldType = ''D'', Len = 8, Decimals = 0\<rparr>"
      example_lib "Some (GTime (Civil 1 1 1 0 0 0))" "Civil 2024 3 9 4 5 6"]
    date_export_format [of "\<lparr>FieldName = ''SEEN'', FieldType = ''T'', Len = 8, Decimals = 0\<rparr>"
      example_lib "Some (GTime (Civil 2024 3 9 4 5 6))" "Civil 2024 3 9 4 5 6"]
    date_export_format [of "\<lparr>FieldName = ''SEEN'', FieldType = ''T'', Len = 8, Decimals = 0\<rparr>"
      example_lib None "Civil 2024 3 9 4 5 6"]
  by (simp add: example_time example_date_parts)

text \<open>
  C9. The formatter returns a string for every value and every field header: no branch
  of the source can fail, so the embedding has no failure value. A nil value gives the
  empty string under every header, and a value under a header whose type tag is none of
  the ten tags of the switch gives \<^verbatim>\<open>fmt.Sprintf("%v", value)\<close>.
\<close>

theorem formatter_total:
  "formatValueForCSV L None field = [] \<and>
   (FieldType field \<notin> set [''C'', ''N'', ''F'', ''L'', ''D'', ''T'', ''M'', ''I'', ''B'', ''Y''] \<longrightarrow>
      formatValueForCSV L (Some x) field = Sprintf_v L x)"
  by (simp add: formatValueForCSV_def)

theorem formatter_total_witness:
  "FieldType \<lparr>FieldName = ''BLOB'', FieldType = ''W'', Len = 4, Decimals = 0\<rparr> \<notin>
     set [''C'', ''N'', ''F'', ''L'', ''D'', ''T'', ''M'', ''I'', ''B'', ''Y''] \<and>
   formatValueForCSV example_lib (Some (GString ''raw''))
       \<lparr>FieldName = ''BLOB'', FieldType = ''W'', Len = 4, Decimals = 0\<rparr> = ''raw'' \<and>
   formatValueForCSV example_lib None
       \<lparr>FieldName = ''BLOB'', FieldType = ''W'', Len = 4, Decimals = 0\<rparr> = []"
  using formatter_total [of example_lib
      "\<lparr>FieldName = ''BLOB'', FieldType = ''W'', Len = 4, Decimals = 0\<rparr>" "GString ''raw''"]
  by (simp add: example_lib_def)

section \<open>The claims about main\<close>

text \<open>
  C1. With a source path and no further argument, the variable \<^verbatim>\<open>encoding\<close> keeps its
  initial value \<^verbatim>\<open>"big5"\<close>, and the table is opened with the Big5 decoder, not with the
  Windows-1250 decoder.
\<close>

theorem default_decoder_is_big5:
  "encoding (parse_args S [prog, path]) = ''big5'' \<and>
   opened (main S L [prog, path]) = Some (path, Big5Decoder)"
  by (simp add: main_def parse_args_def parse_loop.simps select_decoder_def Let_def
        split: sum.splits ret.splits)

text \<open>
  C10. The argument \<^verbatim>\<open>--csv=\<close> sets the CSV path to the empty string. An argument that
  starts with \<^verbatim>\<open>--csv\<close>, is not \<^verbatim>\<open>--csv\<close> and does not start with \<^verbatim>\<open>--csv=\<close> changes
  nothing: the path stays as it was, and nothing else is set. exportToCSV is called only
  with a non-empty path, and once the table is open it is called if and only if the path
  is non-empty. So a run whose only option is such an argument exports nothing.
\<close>

theorem csv_flag_variants_disable_export:
  fixes S :: "('e, 'v) sys"
  shows
  "parse_arg S i ''--csv='' a = a\<lparr>csvOutput := []\<rparr> \<and>
   (HasPrefix arg ''--csv'' \<and> arg \<noteq> ''--csv'' \<and> \<not> HasPrefix arg ''--csv='' \<longrightarrow>
      parse_arg S i arg a = a) \<and>
   (exported (main S L osArgs) \<noteq> None \<longrightarrow> csvOutput (parse_args S osArgs) \<noteq> []) \<and>
   (2 \<le> length osArgs \<and>
    OpenFile S (dbfFile (parse_args S osArgs))
      (fst (select_decoder (encoding (parse_args S osArgs)) :: Decoder \<times> 'e msg list)) = Inr d \<longrightarrow>
      (exported (main S L osArgs) \<noteq> None \<longleftrightarrow> csvOutput (parse_args S osArgs) \<noteq> [])) \<and>
   (arg = ''--csv='' \<or>
    HasPrefix arg ''--csv'' \<and> arg \<noteq> ''--csv'' \<and> \<not> HasPrefix arg ''--csv='' \<longrightarrow>
      csvOutput (parse_args S [prog, path, arg]) = [] \<and>
      exported (main S L [prog, path, arg]) = None)"
proof -
  have empty: "parse_arg S i ''--csv='' a = a\<lparr>csvOutput := []\<rparr>" for i a
    by (simp add: parse_arg_def HasPrefix_def TrimPrefix_def)
  have other: "parse_arg S i arg a = a"
    if "HasPrefix arg ''--csv'' \<and> arg \<noteq> ''--csv'' \<and> \<not> HasPrefix arg ''--csv=''" for i a
    using that by (simp add: parse_arg_def)
  have only: "exported (main S L osArgs) \<noteq> None \<longrightarrow> csvOutput (parse_args S osArgs) \<noteq> []"
    for osArgs
    by (simp add: main_def Let_def split: sum.splits ret.splits)
  have iff: "exported (main S L osArgs) \<noteq> None \<longleftrightarrow> csvOutput (parse_args S osArgs) \<noteq> []"
    if "2 \<le> length osArgs \<and>
        OpenFile S (dbfFile (parse_args S osArgs))
          (fst (select_decoder (encoding (parse_args S osArgs)) :: Decoder \<times> 'e msg list)) = Inr d"
    using that by (simp add: main_def Let_def split: ret.splits)
  have path: "csvOutput (parse_args S [prog, path, arg]) = []"
    if "arg = ''--csv='' \<or>
        HasPrefix arg ''--csv'' \<and> arg \<noteq> ''--csv'' \<and> \<not> HasPrefix arg ''--csv=''"
    using that empty other by (auto simp: parse_args_def parse_loop.simps)
  then have none: "exported (main S L [prog, path, arg]) = None"
    if "arg = ''--csv='' \<or>
        HasPrefix arg ''--csv'' \<and> arg \<noteq> ''--csv'' \<and> \<not> HasPrefix arg ''--csv=''"
    using that only [of "[prog, path, arg]"] by blast
  from empty other only iff path none show ?thesis by blast
qed

theorem csv_flag_variants_disable_export_witness:
  "HasPrefix ''--csvx'' ''--csv'' \<and> ''--csvx'' \<noteq> ''--csv'' \<and> \<not> HasPrefix ''--csvx'' ''--csv='' \<and>
   parse_arg (example_sys 8 None) 2 ''--csvx''
       \<lparr>dbfFile = ''t.dbf'', encoding = ''big5'', csvOutput = [], noDisplay = False\<rparr> =
     \<lparr>dbfFile = ''t.dbf'', encoding = ''big5'', csvOutput = [], noDisplay = False\<rparr> \<and>
   csvOutput (parse_args (example_sys 8 None) [''dbfreader'', ''t.dbf'', ''--csvx'']) = [] \<and>
   exported (main (example_sys 8 None) example_lib [''dbfreader'', ''t.dbf'', ''--csvx'']) = None \<and>
   csvOutput (parse_args (example_sys 8 None) [''dbfreader'', ''t.dbf'', ''--csv='']) = [] \<and>
   exported (main (example_sys 8 None) example_lib [''dbfreader'', ''t.dbf'', ''--csv='']) = None \<and>
   2 \<le> length [''dbfreader'', ''t.dbf'', ''--csv''] \<and>
   OpenFile (example_sys 8 None)
       (dbfFile (parse_args (example_sys 8 None) [''dbfreader'', ''t.dbf'', ''--csv'']))
       (fst (select_decoder
               (encoding (parse_args (example_sys 8 None) [''dbfreader'', ''t.dbf'', ''--csv'']))
             :: Decoder \<times> string msg list)) = Inr example_dbf \<and>
   exported (main (example_sys 8 None) example_lib [''dbfreader'', ''t.dbf'', ''--csv'']) \<noteq> None \<and>
   csvOutput (parse_args (example_sys 8 None) [''dbfreader'', ''t.dbf'', ''--csv'']) \<noteq> []"
  using
    csv_flag_variants_disable_export [of "example_sys 8 None" 2
      "\<lparr>dbfFile = ''t.dbf'', encoding = ''big5'', csvOutput = [], noDisplay = False\<rparr>"
      "''--csvx''" example_lib "[''dbfreader'', ''t.dbf'', ''--csv'']" example_dbf
      "''dbfreader''" "''t.dbf''"]
    csv_flag_variants_disable_export [of "example_sys 8 None" 2
      "\<lparr>dbfFile = ''t.dbf'', encoding = ''big5'', csvOutput = [], noDisplay = False\<rparr>"
      "''--csv=''" example_lib "[''dbfreader'', ''t.dbf'', ''--csv'']" example_dbf
      "''dbfreader''" "''t.dbf''"]
  by (simp add: example_parse_csv example_open example_main_csv HasPrefix_def)

end
